theory Spec2Isabelle
  imports Complex_Main "HOL-Library.Word" "HOL-Library.Signed_Division"
begin

unbundle bit_operations_syntax

section \<open>Dynamic values\<close>

text \<open>
  The engine works on Go values of type \<open>any\<close>. The model keeps the shapes that
  \<open>core/dsl.go\<close> distinguishes through \<open>reflect\<close>: nil, bool, the signed and the
  unsigned integer kinds (held as the 64-bit value that \<open>rv.Int()\<close> and \<open>rv.Uint()\<close>
  return), the float kinds, \<open>string\<close> (a byte sequence), slices and arrays, maps with their
  key kind, structs with their fields, typed nil pointers and pointers. The type parameter
  \<open>'f\<close> stands for \<open>float64\<close>: its arithmetic belongs to the language, not to the
  repository, and is handed to every function that needs it (record \<open>golib\<close> below).
\<close>

type_synonym int64 = "64 word"

datatype seqkind = Slice | Array

datatype keykind = KBool | KInt | KUint | KString | KIface

datatype 'f val =
    DNil
  | DBool bool
  | DInt int64
  | DUint int64
  | DFloat 'f
  | DStr string
  | DSeq seqkind "'f val list"
  | DMap keykind "('f val \<times> 'f val) list"
  | DStruct string "(string \<times> string \<times> string \<times> 'f val) list"
  | DNilPtr string
  | DPtr "'f val"
  | DOpaque string

text \<open>
  A struct is \<open>DStruct T fields\<close>: the name of its type and, per field in declaration
  order, the field name, its \<open>okra\<close> tag, its \<open>json\<close> tag and its value.
  \<open>DNilPtr T\<close> is a nil pointer of type \<open>*T\<close>; \<open>DOpaque\<close> is any value of a kind the
  engine does not look into (a channel, a function, an error value).
\<close>

datatype err =
    DivByZero
  | NegativeShift
  | InvalidBitwise string
  | UnknownBitwise string
  | InvalidUnary string
  | UnknownUnary string
  | InvalidComparison
  | FuncNotFound string
  | MethodNotFound string
  | ArgCount string
  | ArgConvert string nat
  | PanicCalling string string
  | HostError string
  | Panic string
  | Recovered string
  | StackOverflow
  | UnterminatedString
  | InvalidEscape
  | MissingRParen nat
  | MissingColon nat
  | MissingRBracket nat
  | MissingRParenArgs
  | UnexpectedToken string
  | ExtraToken string nat
  | EmptyFuncName
  | NilFunc

text \<open>
  Every \<open>errors.New\<close> and \<open>fmt.Errorf\<close> of the source is a constructor. \<open>Panic\<close> is a Go
  panic that is travelling up the stack; \<open>Recovered\<close> is the error that the deferred
  function of \<open>Engine.Eval\<close> makes of it. \<open>HostError\<close> is an error returned by a method or
  a registered function of the embedding application.
\<close>

record 'f golib =
  f_of_int :: "int64 \<Rightarrow> 'f"
  f_to_int :: "'f \<Rightarrow> int64"
  f_to_uint :: "'f \<Rightarrow> int64"
  ParseFloat :: "string \<Rightarrow> 'f \<times> bool"
  f_add :: "'f \<Rightarrow> 'f \<Rightarrow> 'f"
  f_sub :: "'f \<Rightarrow> 'f \<Rightarrow> 'f"
  f_mul :: "'f \<Rightarrow> 'f \<Rightarrow> 'f"
  f_div :: "'f \<Rightarrow> 'f \<Rightarrow> 'f"
  f_neg :: "'f \<Rightarrow> 'f"
  f_eq :: "'f \<Rightarrow> 'f \<Rightarrow> bool"
  f_lt :: "'f \<Rightarrow> 'f \<Rightarrow> bool"
  f_le :: "'f \<Rightarrow> 'f \<Rightarrow> bool"
  SprintOther :: "'f val \<Rightarrow> string"
  DeepEqual :: "'f val \<Rightarrow> 'f val \<Rightarrow> bool"
  QuoteHigh :: "string \<Rightarrow> string"

text \<open>
  The parts of the Go runtime and standard library that the code calls and that are not
  modelled bit by bit: \<open>float64\<close> conversion and arithmetic, \<open>strconv.ParseFloat\<close> (the
  value it returns and whether \<open>err == nil\<close>), \<open>fmt.Sprint\<close> on floats and composite
  values, \<open>reflect.DeepEqual\<close>, and \<open>strconv.Quote\<close> on text that is not plain ASCII.
\<close>

section \<open>Coercions\<close>

fun toInt64 :: "'f val \<Rightarrow> int64 \<times> bool" where
  "toInt64 (DInt i) = (i, True)"
| "toInt64 (DUint u) = (u, True)"
| "toInt64 _ = (0, False)"

definition toFloat :: "'f golib \<Rightarrow> 'f val \<Rightarrow> 'f \<times> bool" where
  "toFloat L v =
     (case toInt64 v of
        (i, True) \<Rightarrow> (f_of_int L i, True)
      | (_, False) \<Rightarrow>
          (case v of
             DFloat f \<Rightarrow> (f, True)
           | DStr s \<Rightarrow> ParseFloat L s
           | _ \<Rightarrow> (f_of_int L 0, False)))"

definition toBool :: "'f golib \<Rightarrow> 'f val \<Rightarrow> bool" where
  "toBool L v =
     (case v of
        DNil \<Rightarrow> False
      | DBool b \<Rightarrow> b
      | DStr s \<Rightarrow> s \<noteq> [] \<and> s \<noteq> ''false''
      | _ \<Rightarrow> \<not> f_eq L (fst (toFloat L v)) (f_of_int L 0))"

section \<open>Arithmetic, comparison and bitwise operators\<close>

definition int64_quo :: "int64 \<Rightarrow> int64 \<Rightarrow> int64" where
  "int64_quo a b = word_of_int (sint a sdiv sint b)"

definition int64_rem :: "int64 \<Rightarrow> int64 \<Rightarrow> int64" where
  "int64_rem a b = word_of_int (sint a smod sint b)"

text \<open>
  Go's \<open>/\<close> and \<open>%\<close> on \<open>int64\<close> truncate towards zero, and the quotient of the most
  negative value by \<open>-1\<close> wraps around; both callers test the divisor for zero first.
\<close>

definition evalMath :: "'f golib \<Rightarrow> 'f val \<Rightarrow> 'f val \<Rightarrow> char \<Rightarrow> err + 'f val" where
  "evalMath L lv rv op =
     (let (li, okL) = toInt64 lv; (ri, okR) = toInt64 rv;
          lf = fst (toFloat L lv); rf = fst (toFloat L rv);
          floatPath =
            (if op = CHR ''+'' then Inr (DFloat (f_add L lf rf))
             else if op = CHR ''-'' then Inr (DFloat (f_sub L lf rf))
             else if op = CHR ''*'' then Inr (DFloat (f_mul L lf rf))
             else if op = CHR ''/'' then
               (if f_eq L rf (f_of_int L 0) then Inl DivByZero
                else Inr (DFloat (f_div L lf rf)))
             else Inr DNil)
      in if okL \<and> okR then
           (if op = CHR ''+'' then Inr (DInt (li + ri))
            else if op = CHR ''-'' then Inr (DInt (li - ri))
            else if op = CHR ''*'' then Inr (DInt (li * ri))
            else if op = CHR ''/'' then
              (if ri = 0 then Inl DivByZero else Inr (DInt (int64_quo li ri)))
            else if op = CHR ''%'' then
              (if ri = 0 then Inl DivByZero else Inr (DInt (int64_rem li ri)))
            else floatPath)
         else floatPath)"

definition compare :: "'f golib \<Rightarrow> 'f val \<Rightarrow> 'f val \<Rightarrow> string \<Rightarrow> err + 'f val" where
  "compare L lv rv op =
     (let (lf, okL) = toFloat L lv; (rf, okR) = toFloat L rv
      in if \<not> okL \<or> \<not> okR then Inl InvalidComparison
         else if op = ''>'' then Inr (DBool (f_lt L rf lf))
         else if op = ''<'' then Inr (DBool (f_lt L lf rf))
         else if op = ''>='' then Inr (DBool (f_le L rf lf))
         else if op = ''<='' then Inr (DBool (f_le L lf rf))
         else Inr (DBool False))"

definition evalBitwise :: "'f val \<Rightarrow> 'f val \<Rightarrow> string \<Rightarrow> err + 'f val" where
  "evalBitwise lv rv op =
     (let (li, okL) = toInt64 lv; (ri, okR) = toInt64 rv
      in if \<not> okL \<or> \<not> okR then Inl (InvalidBitwise op)
         else if op = ''&'' then Inr (DInt (li AND ri))
         else if op = ''|'' then Inr (DInt (li OR ri))
         else if op = ''^'' then Inr (DInt (li XOR ri))
         else if op = ''<<'' then
           (if sint ri < 0 then Inl NegativeShift else Inr (DInt (push_bit (unat ri) li)))
         else if op = ''>>'' then
           (if sint ri < 0 then Inl NegativeShift
            else Inr (DInt (signed_drop_bit (unat ri) li)))
         else Inl (UnknownBitwise op))"

section \<open>Library functions on strings\<close>

definition is_digit :: "char \<Rightarrow> bool" where
  "is_digit c = (48 \<le> (of_char c :: nat) \<and> (of_char c :: nat) \<le> 57)"

definition digit_val :: "char \<Rightarrow> nat" where
  "digit_val c = (of_char c :: nat) - 48"

fun digits_val :: "string \<Rightarrow> nat \<Rightarrow> nat option" where
  "digits_val [] acc = Some acc"
| "digits_val (c # cs) acc =
     (if is_digit c then digits_val cs (10 * acc + digit_val c) else None)"

definition ParseUint :: "string \<Rightarrow> int64 \<times> bool" where
  "ParseUint s =
     (if s = [] then (0, False)
      else case digits_val s 0 of
             None \<Rightarrow> (0, False)
           | Some n \<Rightarrow> if n \<ge> 2 ^ 64 then (- 1, False) else (of_nat n, True))"

definition ParseInt :: "string \<Rightarrow> int64 \<times> bool" where
  "ParseInt s =
     (case s of
        [] \<Rightarrow> (0, False)
      | c # cs \<Rightarrow>
          (let neg = (c = CHR ''-'');
               body = (if c = CHR ''+'' \<or> c = CHR ''-'' then cs else s)
           in if body = [] then (0, False)
              else case digits_val body 0 of
                     None \<Rightarrow> (0, False)
                   | Some n \<Rightarrow>
                       if \<not> neg \<and> n \<ge> 2 ^ 63 then (word_of_int (2 ^ 63 - 1), False)
                       else if neg \<and> n > 2 ^ 63 then (word_of_int (- (2 ^ 63)), False)
                       else (if neg then - of_nat n else of_nat n, True)))"

text \<open>
  \<open>strconv.ParseUint(s, 10, 64)\<close> and \<open>strconv.ParseInt(s, 10, 64)\<close>: the value and
  whether \<open>err == nil\<close>. A syntax error gives 0, a range error the nearest bound.
  \<open>strconv.Atoi\<close> on a 64-bit platform accepts the same strings with the same values.
\<close>

definition Atoi :: "string \<Rightarrow> int64 \<times> bool" where
  "Atoi s = ParseInt s"

definition digit_char :: "nat \<Rightarrow> char" where
  "digit_char n = ''0123456789'' ! (n mod 10)"

function dec_nat :: "nat \<Rightarrow> string" where
  "dec_nat n = (if n < 10 then [digit_char n] else dec_nat (n div 10) @ [digit_char n])"
  by pat_completeness auto
termination
  by (relation "measure id") auto

declare dec_nat.simps [simp del]

definition FormatInt :: "int \<Rightarrow> string" where
  "FormatInt i = (if i < 0 then CHR ''-'' # dec_nat (nat (- i)) else dec_nat (nat i))"

definition lowerChar :: "char \<Rightarrow> char" where
  "lowerChar c =
     (case map_of (zip ''ABCDEFGHIJKLMNOPQRSTUVWXYZ'' ''abcdefghijklmnopqrstuvwxyz'') c of
        Some d \<Rightarrow> d
      | None \<Rightarrow> c)"

definition ToLower :: "string \<Rightarrow> string" where
  "ToLower s = map lowerChar s"

text \<open>
  \<open>strings.ToLower\<close> on ASCII text; the names of registered functions and of calls are
  taken to be ASCII.
\<close>

definition EncodeRune :: "int \<Rightarrow> string" where
  "EncodeRune r0 =
     (let r = (if r0 < 0 \<or> r0 > 1114111 \<or> (55296 \<le> r0 \<and> r0 \<le> 57343) then 65533 else nat r0)
      in if r < 128 then [char_of r]
         else if r < 2048 then [char_of (192 + r div 64), char_of (128 + r mod 64)]
         else if r < 65536 then
           [char_of (224 + r div 4096), char_of (128 + (r div 64) mod 64),
            char_of (128 + r mod 64)]
         else
           [char_of (240 + r div 262144), char_of (128 + (r div 4096) mod 64),
            char_of (128 + (r div 64) mod 64), char_of (128 + r mod 64)])"

text \<open>The UTF-8 bytes of a rune, as \<open>utf8.AppendRune\<close> writes them: an invalid rune is
  written as U+FFFD.\<close>

definition Sprint :: "'f golib \<Rightarrow> 'f val \<Rightarrow> string" where
  "Sprint L v =
     (case v of
        DNil \<Rightarrow> ''<nil>''
      | DBool b \<Rightarrow> (if b then ''true'' else ''false'')
      | DInt i \<Rightarrow> FormatInt (sint i)
      | DUint u \<Rightarrow> dec_nat (unat u)
      | DStr s \<Rightarrow> s
      | _ \<Rightarrow> SprintOther L v)"

section \<open>Methods of host values\<close>

text \<open>
  The methods of the host's types are code of the embedding application. A method is given
  by what \<open>reflect\<close> reports of its signature and by what a call does: \<open>m_ptr_recv\<close> says
  whether the receiver is a pointer, \<open>m_in\<close> has one entry per declared parameter (for a
  variadic method the last entry describes one element of the variadic parameter) with the
  zero value of the parameter type and the conversion to it (\<open>None\<close> where
  \<open>ConvertibleTo\<close> is false), \<open>m_num_out\<close> is the number of results, and \<open>m_call\<close> runs the
  method on a receiver and converted arguments. A result is a value or, when its type
  implements \<open>error\<close>, an error (\<open>None\<close> for the nil error). The host is a table from type
  name and method name to the method.
\<close>

record 'f param =
  p_zero :: "'f val"
  p_convert :: "'f val \<Rightarrow> 'f val option"

datatype 'f out = OVal "'f val" | OErr "string option"

datatype 'f mresult = MPanic string | MOut "'f out list"

record 'f meth =
  m_ptr_recv :: bool
  m_in :: "'f param list"
  m_variadic :: bool
  m_num_out :: nat
  m_call :: "'f val \<Rightarrow> 'f val list \<Rightarrow> 'f mresult"

type_synonym 'f host = "string \<Rightarrow> string \<Rightarrow> 'f meth option"

fun out_val :: "'f out \<Rightarrow> 'f val" where
  "out_val (OVal v) = v"
| "out_val (OErr None) = DNil"
| "out_val (OErr (Some msg)) = DOpaque msg"

section \<open>Struct metadata\<close>

definition fieldTag :: "string \<Rightarrow> string \<Rightarrow> string option" where
  "fieldTag okra json =
     (let tag = (if okra = [] then json else okra)
      in if tag \<noteq> [] \<and> tag \<noteq> ''-'' then Some (takeWhile (\<lambda>c. c \<noteq> CHR '','') tag)
         else None)"

fun metaFields ::
  "(string \<times> string \<times> string \<times> 'f val) list \<Rightarrow> nat \<Rightarrow> (string \<rightharpoonup> nat) \<Rightarrow> (string \<rightharpoonup> nat)"
where
  "metaFields [] i m = m"
| "metaFields ((name, okra, json, v) # fs) i m =
     metaFields fs (Suc i)
       (case fieldTag okra json of
          None \<Rightarrow> m(name \<mapsto> i)
        | Some tag \<Rightarrow> (m(name \<mapsto> i))(tag \<mapsto> i))"

definition is_exported :: "string \<Rightarrow> bool" where
  "is_exported name =
     (case name of [] \<Rightarrow> False
      | c # _ \<Rightarrow> 65 \<le> (of_char c :: nat) \<and> (of_char c :: nat) \<le> 90)"

text \<open>
  \<open>getStructMeta\<close> fills \<open>meta.fields\<close> in declaration order, the name first and the tag
  after it, so a later entry overwrites an earlier one. \<open>rv.Field(idx).Interface()\<close>
  panics on a field that is not exported.
\<close>

definition fieldInterface ::
  "(string \<times> string \<times> string \<times> 'f val) list \<Rightarrow> nat \<Rightarrow> err + 'f val" where
  "fieldInterface fs idx =
     (case fs ! idx of (name, okra, json, v) \<Rightarrow>
        if is_exported name then Inr v else Inl (Panic ''unexported field''))"

section \<open>Member resolution\<close>

definition getterCall :: "'f meth \<Rightarrow> 'f val \<Rightarrow> err + 'f val" where
  "getterCall m recv =
     (if m_in m = [] \<and> m_num_out m > 0 then
        (case m_call m recv [] of
           MPanic msg \<Rightarrow> Inl (Panic msg)
         | MOut [] \<Rightarrow> Inr DNil
         | MOut (out # _) \<Rightarrow> Inr (out_val out))
      else Inr DNil)"

fun getMemberAt :: "'f host \<Rightarrow> bool \<Rightarrow> 'f val \<Rightarrow> string \<Rightarrow> err + 'f val" where
  "getMemberAt H addr (DNilPtr T) key = Inr DNil"
| "getMemberAt H addr (DPtr v) key = getMemberAt H True v key"
| "getMemberAt H addr (DMap kt kvs) key =
     (if kt = KString \<or> kt = KIface then
        (case map_of kvs (DStr key) of None \<Rightarrow> Inr DNil | Some v \<Rightarrow> Inr v)
      else
        (case ParseInt key of
           (i, True) \<Rightarrow>
             (if kt = KInt then
                (case map_of kvs (DInt i) of None \<Rightarrow> Inr DNil | Some v \<Rightarrow> Inr v)
              else if kt = KUint then
                (case map_of kvs (DUint i) of None \<Rightarrow> Inr DNil | Some v \<Rightarrow> Inr v)
              else Inl (Panic ''reflect.Value.Convert''))
         | (_, False) \<Rightarrow> Inr DNil))"
| "getMemberAt H addr (DSeq k xs) key =
     (case Atoi key of
        (idx, ok) \<Rightarrow>
          if \<not> ok \<or> sint idx < 0 \<or> sint idx \<ge> int (length xs) then Inr DNil
          else Inr (xs ! nat (sint idx)))"
| "getMemberAt H addr (DStruct T fs) key =
     (case metaFields fs 0 Map.empty key of
        Some idx \<Rightarrow> fieldInterface fs idx
      | None \<Rightarrow>
          (case H T key of
             None \<Rightarrow> Inr DNil
           | Some m \<Rightarrow>
               if \<not> m_ptr_recv m then getterCall m (DStruct T fs)
               else if addr then getterCall m (DPtr (DStruct T fs))
               else Inr DNil))"
| "getMemberAt H addr v key = Inr DNil"

definition getMember :: "'f host \<Rightarrow> 'f val \<Rightarrow> string \<Rightarrow> err + 'f val" where
  "getMember H obj key = (if obj = DNil then Inr DNil else getMemberAt H False obj key)"

text \<open>
  \<open>getMemberAt\<close> is the body of \<open>getMember\<close> after the nil test: the loop that follows
  pointers (a value reached through a pointer is addressable, which is what \<open>addr\<close>
  records) and the switch on the kind. On a map whose key type does not take a string,
  the key is parsed as an integer and converted to the key type with
  \<open>reflect.Value.Convert\<close>, which panics when the key type is not numeric.
\<close>

section \<open>Indexing\<close>

fun hashable :: "'f val \<Rightarrow> bool" where
  "hashable (DSeq Slice xs) = False"
| "hashable (DSeq Array xs) = list_all hashable xs"
| "hashable (DMap kt kvs) = False"
| "hashable (DStruct T fs) = list_all (\<lambda>f. hashable (snd (snd (snd f)))) fs"
| "hashable v = True"

definition RuneString :: "int64 \<Rightarrow> bool \<Rightarrow> string" where
  "RuneString x is_signed =
     (let i = (if is_signed then sint x else uint x)
      in if - (2 ^ 31) \<le> i \<and> i < 2 ^ 31 then EncodeRune i else EncodeRune 65533)"

definition mapKey :: "'f golib \<Rightarrow> keykind \<Rightarrow> 'f val \<Rightarrow> 'f val option" where
  "mapKey L kt idx =
     (if idx = DNil then
        Some (case kt of KBool \<Rightarrow> DBool False | KInt \<Rightarrow> DInt 0 | KUint \<Rightarrow> DUint 0
              | KString \<Rightarrow> DStr [] | KIface \<Rightarrow> DNil)
      else if kt = KIface then Some idx
      else case (idx, kt) of
             (DBool b, KBool) \<Rightarrow> Some idx
           | (DInt i, KInt) \<Rightarrow> Some idx
           | (DInt i, KUint) \<Rightarrow> Some (DUint i)
           | (DInt i, KString) \<Rightarrow> Some (DStr (RuneString i True))
           | (DUint u, KInt) \<Rightarrow> Some (DInt u)
           | (DUint u, KUint) \<Rightarrow> Some idx
           | (DUint u, KString) \<Rightarrow> Some (DStr (RuneString u False))
           | (DFloat f, KInt) \<Rightarrow> Some (DInt (f_to_int L f))
           | (DFloat f, KUint) \<Rightarrow> Some (DUint (f_to_uint L f))
           | (DStr s, KString) \<Rightarrow> Some idx
           | (DStr s, KInt) \<Rightarrow> (case ParseInt s of (i, True) \<Rightarrow> Some (DInt i) | _ \<Rightarrow> None)
           | (DStr s, KUint) \<Rightarrow> (case ParseUint s of (u, True) \<Rightarrow> Some (DUint u) | _ \<Rightarrow> None)
           | _ \<Rightarrow> None)"

text \<open>
  The key that \<open>IndexExpr.Eval\<close> looks up in a map of key kind \<open>kt\<close>: the zero value for
  a nil index, the index itself where its type is assignable, its conversion where
  \<open>ConvertibleTo\<close> holds (between the numeric kinds, and from an integer to the string
  of that rune), the parsed integer for a string index on an integer-keyed map, and
  \<open>None\<close> on the paths that return nil.
\<close>

fun indexAt :: "'f golib \<Rightarrow> 'f val \<Rightarrow> 'f val \<Rightarrow> err + 'f val" where
  "indexAt L (DNilPtr T) idx = Inr DNil"
| "indexAt L (DPtr v) idx = indexAt L v idx"
| "indexAt L (DSeq k xs) idx =
     (case toInt64 idx of
        (i, ok) \<Rightarrow>
          if \<not> ok then Inr DNil
          else if sint i < 0 \<or> sint i \<ge> int (length xs) then Inr DNil
          else Inr (xs ! nat (sint i)))"
| "indexAt L (DMap kt kvs) idx =
     (case mapKey L kt idx of
        None \<Rightarrow> Inr DNil
      | Some kv \<Rightarrow>
          if kt = KIface \<and> \<not> hashable kv then Inl (Panic ''hash of unhashable type'')
          else (case map_of kvs kv of None \<Rightarrow> Inr DNil | Some v \<Rightarrow> Inr v))"
| "indexAt L v idx = Inr DNil"

section \<open>Reflective method calls\<close>

definition findMethod :: "'f host \<Rightarrow> 'f val \<Rightarrow> string \<Rightarrow> ('f meth \<times> 'f val) option" where
  "findMethod H obj name =
     (case obj of
        DStruct T fs \<Rightarrow>
          (case H T name of
             None \<Rightarrow> None
           | Some m \<Rightarrow> Some (m, if m_ptr_recv m then DPtr obj else obj))
      | DPtr (DStruct T fs) \<Rightarrow>
          (case H T name of
             None \<Rightarrow> None
           | Some m \<Rightarrow> Some (m, if m_ptr_recv m then obj else DStruct T fs))
      | DNilPtr T \<Rightarrow>
          (case H T name of None \<Rightarrow> None | Some m \<Rightarrow> Some (m, obj))
      | _ \<Rightarrow> None)"

text \<open>
  \<open>rv.MethodByName(name)\<close>, with the second try on an addressable copy when the value is
  not a pointer: a struct value reaches its value-receiver methods directly and its
  pointer-receiver methods through the copy; a pointer to a struct reaches both. The
  second component is the receiver the method will run on. A value-receiver method
  reached through a nil pointer panics inside \<open>mv.Call\<close>.
\<close>

definition invoke :: "'f meth \<Rightarrow> 'f val \<Rightarrow> 'f val list \<Rightarrow> 'f mresult" where
  "invoke m recv ins =
     (case recv of
        DNilPtr T \<Rightarrow>
          if m_ptr_recv m then m_call m recv ins
          else MPanic ''value method called using nil pointer''
      | _ \<Rightarrow> m_call m recv ins)"

fun convertArgs :: "'f meth \<Rightarrow> string \<Rightarrow> nat \<Rightarrow> 'f val list \<Rightarrow> err + 'f val list" where
  "convertArgs m name i [] = Inr []"
| "convertArgs m name i (arg # args) =
     (let numIn = length (m_in m);
          t = (if m_variadic m \<and> i \<ge> numIn - 1 then m_in m ! (numIn - 1) else m_in m ! i)
      in case (if arg = DNil then Some (p_zero t) else p_convert t arg) of
           None \<Rightarrow> Inl (ArgConvert name i)
         | Some v \<Rightarrow>
             (case convertArgs m name (Suc i) args of
                Inl e \<Rightarrow> Inl e
              | Inr vs \<Rightarrow> Inr (v # vs)))"

definition callResult :: "string \<Rightarrow> 'f mresult \<Rightarrow> err + 'f val" where
  "callResult name r =
     (case r of
        MPanic msg \<Rightarrow> Inl (PanicCalling name msg)
      | MOut [] \<Rightarrow> Inr DNil
      | MOut outs \<Rightarrow>
          (case (length outs > 1, last outs) of
             (True, OErr (Some msg)) \<Rightarrow> Inl (HostError msg)
           | _ \<Rightarrow> Inr (out_val (hd outs))))"

definition callReflectMethod ::
  "'f host \<Rightarrow> 'f val \<Rightarrow> string \<Rightarrow> 'f val list \<Rightarrow> err + 'f val" where
  "callReflectMethod H obj name args =
     (case findMethod H obj name of
        None \<Rightarrow> Inl (MethodNotFound name)
      | Some (m, recv) \<Rightarrow>
          (let numIn = length (m_in m)
           in if m_variadic m \<and> length args < numIn - 1 then Inl (ArgCount name)
              else if \<not> m_variadic m \<and> length args \<noteq> numIn then Inl (ArgCount name)
              else case convertArgs m name 0 args of
                     Inl e \<Rightarrow> Inl e
                   | Inr ins \<Rightarrow> callResult name (invoke m recv ins)))"

section \<open>Expressions and their evaluation\<close>

datatype 'f expr =
    LiteralExpr "'f val"
  | VariableExpr string
  | MemberAccessExpr "'f expr" string bool
  | IndexExpr "'f expr" "'f expr"
  | MethodCallExpr "'f expr" string "'f expr list"
  | CallExpr string "'f expr list"
  | UnaryExpr string "'f expr"
  | InfixExpr "'f expr" string "'f expr"
  | TernaryExpr "'f expr" "'f expr" "'f expr"

type_synonym 'f CustomFunc = "'f val list \<Rightarrow> err + 'f val"

record 'f Context =
  Data :: "'f val"
  Fns :: "string \<rightharpoonup> 'f CustomFunc"

fun lenPseudo :: "'f val \<Rightarrow> 'f val option" where
  "lenPseudo (DNilPtr T) = Some (DInt 0)"
| "lenPseudo (DPtr v) = lenPseudo v"
| "lenPseudo (DSeq k xs) = Some (DInt (of_nat (length xs)))"
| "lenPseudo (DMap kt kvs) = Some (DInt (of_nat (length kvs)))"
| "lenPseudo (DStr s) = Some (DInt (of_nat (length s)))"
| "lenPseudo v = None"

text \<open>
  The \<open>len\<close> block of \<open>MethodCallExpr.Eval\<close>: the pointer loop, which returns 0 at a nil
  pointer, and \<open>rv.Len()\<close> for the four sized kinds; \<open>None\<close> where the block is left
  without returning. A map is listed with one entry per key.
\<close>

definition evalUnary :: "'f golib \<Rightarrow> string \<Rightarrow> 'f val \<Rightarrow> err + 'f val" where
  "evalUnary L op rv =
     (if op = ''!'' then Inr (DBool (\<not> toBool L rv))
      else if op = ''-'' then
        (case toInt64 rv of
           (i, True) \<Rightarrow> Inr (DInt (- i))
         | (_, False) \<Rightarrow>
             (case toFloat L rv of
                (f, True) \<Rightarrow> Inr (DFloat (f_neg L f))
              | (_, False) \<Rightarrow> Inl (InvalidUnary op)))
      else if op = ''~'' then
        (case toInt64 rv of
           (i, True) \<Rightarrow> Inr (DInt (NOT i))
         | (_, False) \<Rightarrow> Inl (InvalidUnary op))
      else Inl (UnknownUnary op))"

definition evalInfix :: "'f golib \<Rightarrow> 'f val \<Rightarrow> string \<Rightarrow> 'f val \<Rightarrow> err + 'f val" where
  "evalInfix L lv op rv =
     (if op = ''=='' then
        (if DeepEqual L lv rv then Inr (DBool True)
         else case (toFloat L lv, toFloat L rv) of
                ((lf, True), (rf, True)) \<Rightarrow> Inr (DBool (f_eq L lf rf))
              | _ \<Rightarrow> Inr (DBool False))
      else if op = ''!='' then
        (if DeepEqual L lv rv then Inr (DBool False)
         else case (toFloat L lv, toFloat L rv) of
                ((lf, True), (rf, True)) \<Rightarrow> Inr (DBool (\<not> f_eq L lf rf))
              | _ \<Rightarrow> Inr (DBool True))
      else if op = ''+'' then
        (case lv of
           DStr ls \<Rightarrow> Inr (DStr (ls @ Sprint L rv))
         | _ \<Rightarrow> evalMath L lv rv CHR ''+'')
      else if op = ''-'' then evalMath L lv rv CHR ''-''
      else if op = ''*'' then evalMath L lv rv CHR ''*''
      else if op = ''/'' then evalMath L lv rv CHR ''/''
      else if op = ''%'' then evalMath L lv rv CHR ''%''
      else if op \<in> {''>'', ''<'', ''>='', ''<=''} then compare L lv rv op
      else if op \<in> {''&'', ''|'', ''^'', ''<<'', ''>>''} then evalBitwise lv rv op
      else Inr DNil)"

text \<open>\<open>evalInfix\<close> is the \<open>switch e.Op\<close> of \<open>InfixExpr.Eval\<close>, entered with both
  operand values.\<close>

fun Eval :: "'f golib \<Rightarrow> 'f host \<Rightarrow> 'f Context \<Rightarrow> 'f expr \<Rightarrow> err + 'f val"
and EvalArgs :: "'f golib \<Rightarrow> 'f host \<Rightarrow> 'f Context \<Rightarrow> 'f expr list \<Rightarrow> err + 'f val list"
where
  "Eval L H ctx (LiteralExpr v) = Inr v"
| "Eval L H ctx (VariableExpr name) = getMember H (Data ctx) name"
| "Eval L H ctx (MemberAccessExpr left key isIndex) =
     (case Eval L H ctx left of
        Inl e \<Rightarrow> Inl e
      | Inr v \<Rightarrow> if v = DNil then Inr DNil else getMember H v key)"
| "Eval L H ctx (IndexExpr left index) =
     (case Eval L H ctx left of
        Inl e \<Rightarrow> Inl e
      | Inr obj \<Rightarrow>
          if obj = DNil then Inr DNil
          else (case Eval L H ctx index of
                  Inl e \<Rightarrow> Inl e
                | Inr idx \<Rightarrow> indexAt L obj idx))"
| "Eval L H ctx (MethodCallExpr left method args) =
     (case Eval L H ctx left of
        Inl e \<Rightarrow> Inl e
      | Inr obj \<Rightarrow>
          if obj = DNil then Inr DNil
          else (case (if method = ''len'' \<and> args = [] then lenPseudo obj else None) of
                  Some n \<Rightarrow> Inr n
                | None \<Rightarrow>
                    (case EvalArgs L H ctx args of
                       Inl e \<Rightarrow> Inl e
                     | Inr vs \<Rightarrow> callReflectMethod H obj method vs)))"
| "Eval L H ctx (CallExpr name args) =
     (case Fns ctx (ToLower name) of
        Some fn \<Rightarrow>
          (case EvalArgs L H ctx args of
             Inl e \<Rightarrow> Inl e
           | Inr vs \<Rightarrow> fn vs)
      | None \<Rightarrow>
          if Data ctx \<noteq> DNil then
            (case EvalArgs L H ctx args of
               Inl e \<Rightarrow> Inl e
             | Inr vs \<Rightarrow>
                 (case callReflectMethod H (Data ctx) name vs of
                    Inr res \<Rightarrow> Inr res
                  | Inl e \<Rightarrow> Inl (FuncNotFound name)))
          else Inl (FuncNotFound name))"
| "Eval L H ctx (UnaryExpr op right) =
     (case Eval L H ctx right of
        Inl e \<Rightarrow> Inl e
      | Inr rv \<Rightarrow> evalUnary L op rv)"
| "Eval L H ctx (InfixExpr left op right) =
     (case Eval L H ctx left of
        Inl e \<Rightarrow> Inl e
      | Inr lv \<Rightarrow>
          if op = ''&&'' then
            (if \<not> toBool L lv then Inr (DBool False)
             else case Eval L H ctx right of
                    Inl e \<Rightarrow> Inl e
                  | Inr rv \<Rightarrow> Inr (DBool (toBool L rv)))
          else if op = ''||'' then
            (if toBool L lv then Inr (DBool True)
             else case Eval L H ctx right of
                    Inl e \<Rightarrow> Inl e
                  | Inr rv \<Rightarrow> Inr (DBool (toBool L rv)))
          else (case Eval L H ctx right of
                  Inl e \<Rightarrow> Inl e
                | Inr rv \<Rightarrow> evalInfix L lv op rv))"
| "Eval L H ctx (TernaryExpr cond thenE elseE) =
     (case Eval L H ctx cond of
        Inl e \<Rightarrow> Inl e
      | Inr c \<Rightarrow> if toBool L c then Eval L H ctx thenE else Eval L H ctx elseE)"
| "EvalArgs L H ctx [] = Inr []"
| "EvalArgs L H ctx (a # as) =
     (case Eval L H ctx a of
        Inl e \<Rightarrow> Inl e
      | Inr v \<Rightarrow>
          (case EvalArgs L H ctx as of
             Inl e \<Rightarrow> Inl e
           | Inr vs \<Rightarrow> Inr (v # vs)))"

text \<open>
  \<open>EvalArgs\<close> is the loop that fills \<open>args\<close> in \<open>MethodCallExpr.Eval\<close> and
  \<open>CallExpr.Eval\<close>: left to right, stopping at the first error.
\<close>

section \<open>The function registry\<close>

definition lenFunc :: "'f CustomFunc" where
  "lenFunc args =
     (case args of
        [] \<Rightarrow> Inr (DInt 0)
      | a # _ \<Rightarrow>
          (case a of
             DSeq Slice xs \<Rightarrow> Inr (DInt (of_nat (length xs)))
           | DStr s \<Rightarrow> Inr (DInt (of_nat (length s)))
           | DMap kt kvs \<Rightarrow> Inr (DInt (of_nat (length kvs)))
           | _ \<Rightarrow> Inr (DInt 0)))"

definition defaultFuncs :: "int64 \<Rightarrow> (string \<rightharpoonup> 'f CustomFunc)" where
  "defaultFuncs clock = [''len'' \<mapsto> lenFunc, ''now'' \<mapsto> (\<lambda>args. Inr (DInt clock))]"

text \<open>The built-in \<open>now\<close> reads the clock; the reading is the parameter \<open>clock\<close>.\<close>

record 'f Engine =
  funcs :: "(string \<rightharpoonup> 'f CustomFunc) option"

definition loadFuncs :: "int64 \<Rightarrow> 'f Engine \<Rightarrow> (string \<rightharpoonup> 'f CustomFunc)" where
  "loadFuncs clock e = (case funcs e of None \<Rightarrow> defaultFuncs clock | Some m \<Rightarrow> m)"

definition NewEngine :: "int64 \<Rightarrow> 'f Engine" where
  "NewEngine clock = \<lparr> funcs = Some (defaultFuncs clock) \<rparr>"

definition RegisterFunc ::
  "int64 \<Rightarrow> 'f Engine \<Rightarrow> string \<Rightarrow> 'f CustomFunc option \<Rightarrow> err + 'f Engine" where
  "RegisterFunc clock e name fn =
     (if name = [] then Inl EmptyFuncName
      else case fn of
             None \<Rightarrow> Inl NilFunc
           | Some f \<Rightarrow> Inr (e\<lparr> funcs := Some ((loadFuncs clock e)(name \<mapsto> f)) \<rparr>))"

text \<open>
  An engine holds its registry in \<open>funcs\<close>; \<open>None\<close> is the zero \<open>Engine\<close>, whose first
  \<open>loadFuncs\<close> installs the defaults. A nil \<open>fn\<close> is \<open>None\<close>.
\<close>

section \<open>The lexer\<close>

datatype tokType = tEOF | tNumber | tString | tIdent | tPathKey | tLParen | tRParen | tComma | tOp

record token =
  tok_typ :: tokType
  tok_val :: string
  tok_pos :: nat

record lexer =
  lex_rest :: string
  lex_pos :: nat

text \<open>
  The lexer of the source holds the text \<open>s\<close> and the offset \<open>pos\<close>; it only ever reads
  \<open>s[pos:]\<close>, which is \<open>lex_rest\<close>. Bytes are tested with the \<open>unicode\<close> predicates on
  \<open>rune(b)\<close>, that is on the Latin-1 character of that code.
\<close>

definition bslash :: char where "bslash = CHR 0x5C"
definition squote :: char where "squote = CHR 0x27"
definition dquote :: char where "dquote = CHR 0x22"

definition isSpace :: "char \<Rightarrow> bool" where
  "isSpace c = ((of_char c :: nat) \<in> {9, 10, 11, 12, 13, 32, 133, 160})"

definition isLetter :: "char \<Rightarrow> bool" where
  "isLetter c =
     (let n = (of_char c :: nat)
      in (65 \<le> n \<and> n \<le> 90) \<or> (97 \<le> n \<and> n \<le> 122) \<or> n = 170 \<or> n = 181 \<or> n = 186
         \<or> (192 \<le> n \<and> n \<le> 214) \<or> (216 \<le> n \<and> n \<le> 246) \<or> (248 \<le> n \<and> n \<le> 255))"

definition hexVal :: "char \<Rightarrow> nat option" where
  "hexVal c =
     (let n = (of_char c :: nat)
      in if 48 \<le> n \<and> n \<le> 57 then Some (n - 48)
         else if 97 \<le> n \<and> n \<le> 102 then Some (n - 87)
         else if 65 \<le> n \<and> n \<le> 70 then Some (n - 55)
         else None)"

fun hexDigits :: "string \<Rightarrow> nat \<Rightarrow> nat option" where
  "hexDigits [] acc = Some acc"
| "hexDigits (c # cs) acc =
     (case hexVal c of None \<Rightarrow> None | Some x \<Rightarrow> hexDigits cs (16 * acc + x))"

definition octVal :: "char \<Rightarrow> nat option" where
  "octVal c =
     (let n = (of_char c :: nat) in if 48 \<le> n \<and> n \<le> 55 then Some (n - 48) else None)"

definition ValidRune :: "nat \<Rightarrow> bool" where
  "ValidRune v = (v < 55296 \<or> (57343 < v \<and> v \<le> 1114111))"

definition UnquoteChar :: "string \<Rightarrow> char \<Rightarrow> (nat \<times> string) option" where
  "UnquoteChar s quote =
     (case s of
        b # c # r \<Rightarrow>
          if c = CHR ''a'' then Some (7, r)
          else if c = CHR ''b'' then Some (8, r)
          else if c = CHR ''f'' then Some (12, r)
          else if c = CHR ''n'' then Some (10, r)
          else if c = CHR ''r'' then Some (13, r)
          else if c = CHR ''t'' then Some (9, r)
          else if c = CHR ''v'' then Some (11, r)
          else if c = CHR ''x'' \<or> c = CHR ''u'' \<or> c = CHR ''U'' then
            (let n = (if c = CHR ''x'' then 2 else if c = CHR ''u'' then 4 else 8)
             in if length r < n then None
                else case hexDigits (take n r) 0 of
                       None \<Rightarrow> None
                     | Some v \<Rightarrow>
                         if c = CHR ''x'' then Some (v, drop n r)
                         else if \<not> ValidRune v then None
                         else Some (v, drop n r))
          else if octVal c \<noteq> None then
            (case r of
               d1 # d2 # r' \<Rightarrow>
                 (case (octVal c, octVal d1, octVal d2) of
                    (Some x0, Some x1, Some x2) \<Rightarrow>
                      if 64 * x0 + 8 * x1 + x2 > 255 then None
                      else Some (64 * x0 + 8 * x1 + x2, r')
                  | _ \<Rightarrow> None)
             | _ \<Rightarrow> None)
          else if c = bslash then Some (92, r)
          else if c = squote \<or> c = dquote then
            (if c \<noteq> quote then None else Some (of_char c, r))
          else None
      | _ \<Rightarrow> None)"

text \<open>
  \<open>strconv.UnquoteChar(s, quote)\<close> on a text that starts with a backslash, the only way
  the lexer calls it: the value of the escape and the text after it, or \<open>None\<close> for a
  syntax error.
\<close>

lemma UnquoteChar_shorter:
  "UnquoteChar s q = Some (v, tl') \<Longrightarrow> length tl' < length s"
  by (auto simp: UnquoteChar_def split: list.splits if_splits option.splits prod.splits)

function lexString :: "char \<Rightarrow> string \<Rightarrow> nat \<Rightarrow> string \<Rightarrow> (err + string) \<times> lexer" where
  "lexString q [] p sb = (Inl UnterminatedString, \<lparr> lex_rest = [], lex_pos = p \<rparr>)"
| "lexString q (c # cs) p sb =
     (if c = q then (Inr sb, \<lparr> lex_rest = cs, lex_pos = p + 1 \<rparr>)
      else if c = bslash then
        (if cs \<noteq> [] \<and> hd cs = q then lexString q (tl cs) (p + 2) (sb @ [q])
         else case UnquoteChar (c # cs) q of
                None \<Rightarrow> (Inl InvalidEscape, \<lparr> lex_rest = c # cs, lex_pos = p \<rparr>)
              | Some (v, rest) \<Rightarrow>
                  lexString q rest (p + (length (c # cs) - length rest))
                    (sb @ EncodeRune (int v)))
      else lexString q cs (p + 1) (sb @ [c]))"
  by pat_completeness auto
termination
  by (relation "measure (\<lambda>(q, s, p, sb). length s)")
     (auto dest: UnquoteChar_shorter simp: neq_Nil_conv)

definition byteString :: "char \<Rightarrow> string" where
  "byteString r = (if (of_char r :: nat) < 128 then [r] else EncodeRune (int (of_char r :: nat)))"

definition mkToken :: "tokType \<Rightarrow> string \<Rightarrow> nat \<Rightarrow> token" where
  "mkToken ty v p = \<lparr> tok_typ = ty, tok_val = v, tok_pos = p \<rparr>"

definition skipSpace :: "lexer \<Rightarrow> lexer" where
  "skipSpace l =
     \<lparr> lex_rest = dropWhile isSpace (lex_rest l),
       lex_pos = lex_pos l + length (takeWhile isSpace (lex_rest l)) \<rparr>"

definition ops :: "string list" where
  "ops = [''=='', ''!='', ''<='', ''>='', ''&&'', ''||'', ''<<'', ''>>'']"

definition nextToken :: "lexer \<Rightarrow> (err + token) \<times> lexer" where
  "nextToken l0 =
     (let l = skipSpace l0; start = lex_pos l
      in case lex_rest l of
           [] \<Rightarrow> (Inr (mkToken tEOF [] start), l)
         | r # cs \<Rightarrow>
             if is_digit r then
               (let body = takeWhile (\<lambda>c. is_digit c \<or> c = CHR ''.'') cs
                in (Inr (mkToken tNumber (r # body) start),
                    \<lparr> lex_rest = dropWhile (\<lambda>c. is_digit c \<or> c = CHR ''.'') cs,
                      lex_pos = start + 1 + length body \<rparr>))
             else if isLetter r \<or> r = CHR ''_'' then
               (let body = takeWhile (\<lambda>c. isLetter c \<or> is_digit c \<or> c = CHR ''_'') cs
                in (Inr (mkToken tIdent (r # body) start),
                    \<lparr> lex_rest = dropWhile (\<lambda>c. isLetter c \<or> is_digit c \<or> c = CHR ''_'') cs,
                      lex_pos = start + 1 + length body \<rparr>))
             else if r = dquote \<or> r = squote then
               (case lexString r cs (start + 1) [] of
                  (Inl e, l') \<Rightarrow> (Inl e, l')
                | (Inr sb, l') \<Rightarrow> (Inr (mkToken tString sb start), l'))
             else if r = CHR ''['' then
               (Inr (mkToken tOp ''['' start), \<lparr> lex_rest = cs, lex_pos = start + 1 \<rparr>)
             else if r = CHR '']'' then
               (Inr (mkToken tOp '']'' start), \<lparr> lex_rest = cs, lex_pos = start + 1 \<rparr>)
             else if r = CHR ''('' then
               (Inr (mkToken tLParen ''('' start), \<lparr> lex_rest = cs, lex_pos = start + 1 \<rparr>)
             else if r = CHR '')'' then
               (Inr (mkToken tRParen '')'' start), \<lparr> lex_rest = cs, lex_pos = start + 1 \<rparr>)
             else if r = CHR '','' then
               (Inr (mkToken tComma '','' start), \<lparr> lex_rest = cs, lex_pos = start + 1 \<rparr>)
             else if r = CHR ''.'' then
               (Inr (mkToken tOp ''.'' start), \<lparr> lex_rest = cs, lex_pos = start + 1 \<rparr>)
             else
               (case find (\<lambda>op. take (length op) (r # cs) = op) ops of
                  Some op \<Rightarrow>
                    (Inr (mkToken tOp op start),
                     \<lparr> lex_rest = drop (length op) (r # cs), lex_pos = start + length op \<rparr>)
                | None \<Rightarrow>
                    (Inr (mkToken tOp (byteString r) start),
                     \<lparr> lex_rest = cs, lex_pos = start + 1 \<rparr>)))"

section \<open>The parser\<close>

text \<open>
  The parser holds the lexer, the current and the next token and the first lexer error.
  \<open>parse\<close> is \<open>parser.parse\<close> up to the call of \<open>nud\<close>, \<open>parseLoop\<close> is its
  \<open>for rbp < lbp(p.curr)\<close> loop, and \<open>parseArgs\<close> carries the arguments read so far. A
  function that returns an error returns no parser state: every caller returns at once.
\<close>

record parser =
  plex :: lexer
  pcurr :: token
  pnext :: token
  plexErr :: "err option"

definition MaxStackDepth :: nat where
  "MaxStackDepth = 256"

definition advance :: "parser \<Rightarrow> parser" where
  "advance p =
     (if plexErr p \<noteq> None then
        p\<lparr> pcurr := pnext p, pnext := mkToken tEOF [] (lex_pos (plex p)) \<rparr>
      else case nextToken (plex p) of
             (Inl e, l') \<Rightarrow>
               p\<lparr> pcurr := pnext p, plex := l', plexErr := Some e, pnext := mkToken tEOF [] (lex_pos l') \<rparr>
           | (Inr n, l') \<Rightarrow> p\<lparr> pcurr := pnext p, plex := l', pnext := n \<rparr>)"

definition lbp :: "token \<Rightarrow> nat" where
  "lbp t =
     (if tok_typ t = tOp then
        (if tok_val t = ''.'' then 100
         else if tok_val t = ''['' then 100
         else if tok_val t \<in> {''*'', ''/'', ''%'', ''<<'', ''>>'', ''&''} then 50
         else if tok_val t \<in> {''+'', ''-'', ''|'', ''^''} then 40
         else if tok_val t \<in> {''<'', ''>'', ''<='', ''>=''} then 35
         else if tok_val t \<in> {''=='', ''!=''} then 30
         else if tok_val t = ''&&'' then 20
         else if tok_val t = ''||'' then 10
         else if tok_val t = ''?'' then 5
         else 0)
      else 0)"

definition tsize :: "parser \<Rightarrow> nat" where
  "tsize p =
     length (lex_rest (plex p)) + (if tok_typ (pnext p) = tEOF then 0 else 1)
       + (if tok_typ (pcurr p) = tEOF then 0 else 1)"

lemma lexString_rest:
  "lexString q s p sb = (r, l') \<Longrightarrow> length (lex_rest l') \<le> length s"
proof (induction q s p sb rule: lexString.induct)
  case (1 q p sb)
  then show ?case by auto
next
  case (2 q c cs p sb)
  show ?case
  proof (cases "c = q")
    case True
    with 2 show ?thesis by auto
  next
    case nq: False
    show ?thesis
    proof (cases "c = bslash")
      case False
      with nq 2 show ?thesis by auto
    next
      case True
      show ?thesis
      proof (cases "cs \<noteq> [] \<and> hd cs = q")
        case True
        with nq \<open>c = bslash\<close> 2 show ?thesis
          by (cases cs) auto
      next
        case False
        show ?thesis
        proof (cases "UnquoteChar (c # cs) q")
          case None
          with False nq \<open>c = bslash\<close> 2 show ?thesis by auto
        next
          case (Some a)
          obtain v rest where a: "a = (v, rest)" by (cases a)
          from Some a have sh: "length rest < length (c # cs)"
            by (auto dest: UnquoteChar_shorter)
          from 2(4) False nq \<open>c = bslash\<close> Some a
          have "lexString q rest (p + (length (c # cs) - length rest))
                  (sb @ EncodeRune (int v)) = (r, l')"
            by auto
          from 2(2) [OF nq \<open>c = bslash\<close> False Some a [symmetric] this] sh
          show ?thesis by simp
        qed
      qed
    qed
  qed
qed

lemma length_dropWhile_le': "length (dropWhile P xs) \<le> length xs"
  by (induction xs) auto

lemma nextToken_consumes:
  assumes a: "nextToken l = (r, l')"
  shows "length (lex_rest l') + (case r of Inr t \<Rightarrow> if tok_typ t = tEOF then 0 else 1 | Inl e \<Rightarrow> 0)
           \<le> length (lex_rest l)"
proof -
  have sk: "length (lex_rest (skipSpace l)) \<le> length (lex_rest l)"
    by (simp add: skipSpace_def length_dropWhile_le')
  show ?thesis
  proof (cases "lex_rest (skipSpace l)")
    case Nil
    with a sk show ?thesis
      by (auto simp: nextToken_def Let_def mkToken_def)
  next
    case (Cons c cs)
    have d: "\<And>P. length (dropWhile P cs) \<le> length cs"
      by (rule length_dropWhile_le')
    show ?thesis
    proof (cases "is_digit c")
      case True
      with a Cons sk d [of "\<lambda>c. is_digit c \<or> c = CHR ''.''"] show ?thesis
        by (auto simp: nextToken_def Let_def mkToken_def)
    next
      case nd: False
      show ?thesis
      proof (cases "isLetter c \<or> c = CHR ''_''")
        case True
        with nd a Cons sk d [of "\<lambda>c. isLetter c \<or> is_digit c \<or> c = CHR ''_''"] show ?thesis
          by (auto simp: nextToken_def Let_def mkToken_def)
      next
        case nl: False
        show ?thesis
        proof (cases "c = dquote \<or> c = squote")
          case True
          obtain r0 l0 where ls: "lexString c cs (lex_pos (skipSpace l) + 1) [] = (r0, l0)"
            by (cases "lexString c cs (lex_pos (skipSpace l) + 1) []")
          from lexString_rest [OF ls] have "length (lex_rest l0) \<le> length cs" .
          with True nd nl a Cons sk ls show ?thesis
            by (cases r0) (auto simp: nextToken_def Let_def mkToken_def)
        next
          case ns: False
          have f: "\<And>op. find (\<lambda>op. take (length op) (c # cs) = op) ops = Some op \<Longrightarrow>
                     length (drop (length op) (c # cs)) \<le> length cs"
          proof -
            fix op
            assume "find (\<lambda>op. take (length op) (c # cs) = op) ops = Some op"
            then have "op \<in> set ops"
              by (auto simp: find_Some_iff)
            then have "length op = 2"
              by (auto simp: ops_def)
            then show "length (drop (length op) (c # cs)) \<le> length cs"
              by simp
          qed
          from ns nd nl a Cons have
            "length (lex_rest l') \<le> length cs \<and> (\<exists>t. r = Inr t \<and> tok_typ t \<noteq> tEOF)"
            by (auto simp: nextToken_def Let_def mkToken_def dest: f
                  split: if_splits option.splits)
          with Cons sk show ?thesis by auto
        qed
      qed
    qed
  qed
qed

lemma tsize_advance: "tsize (advance p) + (if tok_typ (pcurr p) = tEOF then 0 else 1) \<le> tsize p"
proof (cases "plexErr p")
  case None
  obtain r l' where n: "nextToken (plex p) = (r, l')"
    by (cases "nextToken (plex p)")
  from nextToken_consumes [OF n] None n show ?thesis
    by (cases r) (auto simp: advance_def tsize_def mkToken_def)
next
  case (Some e)
  then show ?thesis
    by (auto simp: advance_def tsize_def mkToken_def)
qed

lemma tsize_advance_le: "tsize (advance p) \<le> tsize p"
  using tsize_advance [of p] by simp

function parse :: "'f golib \<Rightarrow> parser \<Rightarrow> nat \<Rightarrow> nat \<Rightarrow> err + ('f expr \<times> parser)"
and parseLoop :: "'f golib \<Rightarrow> parser \<Rightarrow> nat \<Rightarrow> nat \<Rightarrow> 'f expr \<Rightarrow> err + ('f expr \<times> parser)"
and nud :: "'f golib \<Rightarrow> parser \<Rightarrow> token \<Rightarrow> nat \<Rightarrow> err + ('f expr \<times> parser)"
and led :: "'f golib \<Rightarrow> parser \<Rightarrow> token \<Rightarrow> 'f expr \<Rightarrow> nat \<Rightarrow> err + ('f expr \<times> parser)"
and parseArgs :: "'f golib \<Rightarrow> parser \<Rightarrow> nat \<Rightarrow> 'f expr list \<Rightarrow> err + ('f expr list \<times> parser)"
where
  "parse L p rbp depth =
     (if depth > MaxStackDepth then Inl StackOverflow
      else case plexErr p of
             Some e \<Rightarrow> Inl e
           | None \<Rightarrow>
               (case plexErr (advance p) of
                  Some e \<Rightarrow> Inl e
                | None \<Rightarrow>
                    (case nud L (advance p) (pcurr p) depth of
                       Inl e \<Rightarrow> Inl e
                     | Inr (left, p') \<Rightarrow> parseLoop L p' rbp depth left)))"
| "parseLoop L p rbp depth left =
     (if rbp < lbp (pcurr p) then
        (case plexErr (advance p) of
           Some e \<Rightarrow> Inl e
         | None \<Rightarrow>
             (case led L (advance p) (pcurr p) left depth of
                Inl e \<Rightarrow> Inl e
              | Inr (left', p') \<Rightarrow> parseLoop L p' rbp depth left'))
      else Inr (left, p))"
| "nud L p t depth =
     (if tok_typ t = tNumber then
        (if CHR ''.'' \<in> set (tok_val t)
         then Inr (LiteralExpr (DFloat (fst (ParseFloat L (tok_val t)))), p)
         else Inr (LiteralExpr (DInt (fst (ParseInt (tok_val t)))), p))
      else if tok_typ t = tString then Inr (LiteralExpr (DStr (tok_val t)), p)
      else if tok_typ t = tIdent then
        (if tok_val t = ''true'' then Inr (LiteralExpr (DBool True), p)
         else if tok_val t = ''false'' then Inr (LiteralExpr (DBool False), p)
         else if tok_typ (pcurr p) = tLParen then
           (case parseArgs L (advance p) depth [] of
              Inl e \<Rightarrow> Inl e
            | Inr (args, p') \<Rightarrow> Inr (CallExpr (tok_val t) args, p'))
         else Inr (VariableExpr (tok_val t), p))
      else if tok_typ t = tLParen then
        (case parse L p 0 (depth + 1) of
           Inl e \<Rightarrow> Inl e
         | Inr (e, p') \<Rightarrow>
             if tok_typ (pcurr p') \<noteq> tRParen then Inl (MissingRParen (tok_pos (pcurr p')))
             else Inr (e, advance p'))
      else if tok_typ t = tOp then
        (if tok_val t \<in> {''!'', ''-'', ''~''} then
           (case parse L p 60 (depth + 1) of
              Inl e \<Rightarrow> Inl e
            | Inr (right, p') \<Rightarrow> Inr (UnaryExpr (tok_val t) right, p'))
         else Inl (UnexpectedToken (tok_val t)))
      else Inl (UnexpectedToken (tok_val t)))"
| "led L p t left depth =
     (if tok_val t = ''?'' then
        (case parse L p 0 (depth + 1) of
           Inl e \<Rightarrow> Inl e
         | Inr (thenExpr, p') \<Rightarrow>
             if tok_typ (pcurr p') \<noteq> tOp \<or> tok_val (pcurr p') \<noteq> '':''
             then Inl (MissingColon (tok_pos (pcurr p')))
             else (case parse L (advance p') (lbp t - 1) (depth + 1) of
                     Inl e \<Rightarrow> Inl e
                   | Inr (elseExpr, p'') \<Rightarrow> Inr (TernaryExpr left thenExpr elseExpr, p'')))
      else if tok_val t = ''['' then
        (case parse L p 0 (depth + 1) of
           Inl e \<Rightarrow> Inl e
         | Inr (idxExpr, p') \<Rightarrow>
             if tok_typ (pcurr p') \<noteq> tOp \<or> tok_val (pcurr p') \<noteq> '']''
             then Inl (MissingRBracket (tok_pos (pcurr p')))
             else Inr (IndexExpr left idxExpr, advance p'))
      else if tok_val t = ''.'' then
        (if tok_typ (pcurr p) = tOp \<and> tok_val (pcurr p) = ''['' then
           (case parse L (advance p) 0 (depth + 1) of
              Inl e \<Rightarrow> Inl e
            | Inr (idxExpr, p') \<Rightarrow>
                if tok_typ (pcurr p') \<noteq> tOp \<or> tok_val (pcurr p') \<noteq> '']''
                then Inl (MissingRBracket (tok_pos (pcurr p')))
                else Inr (IndexExpr left idxExpr, advance p'))
         else if tok_typ (pcurr (advance p)) = tLParen then
           (case parseArgs L (advance (advance p)) depth [] of
              Inl e \<Rightarrow> Inl e
            | Inr (args, p') \<Rightarrow> Inr (MethodCallExpr left (tok_val (pcurr p)) args, p'))
         else Inr (MemberAccessExpr left (tok_val (pcurr p)) False, advance p))
      else (case parse L p (lbp t) (depth + 1) of
              Inl e \<Rightarrow> Inl e
            | Inr (right, p') \<Rightarrow> Inr (InfixExpr left (tok_val t) right, p')))"
| "parseArgs L p depth args =
     (if tok_typ (pcurr p) \<noteq> tRParen \<and> tok_typ (pcurr p) \<noteq> tEOF then
        (case parse L p 0 (depth + 1) of
           Inl e \<Rightarrow> Inl e
         | Inr (a, p') \<Rightarrow>
             parseArgs L (if tok_typ (pcurr p') = tComma then advance p' else p') depth
               (args @ [a]))
      else if tok_typ (pcurr p) \<noteq> tRParen then Inl MissingRParenArgs
      else Inr (args, advance p))"
  by pat_completeness auto

lemma lbp_pos_not_EOF: "rbp < lbp t \<Longrightarrow> tok_typ t \<noteq> tEOF"
  by (auto simp: lbp_def split: if_splits)

lemma parse_size:
  "parse_parseLoop_nud_led_parseArgs_dom (Inl (Inl (L, p, rbp, depth))) \<Longrightarrow>
     (\<forall>e p'. parse L p rbp depth = Inr (e, p') \<longrightarrow> tsize p' < tsize p)"
  "parse_parseLoop_nud_led_parseArgs_dom (Inl (Inr (L, p, rbp, depth, left))) \<Longrightarrow>
     (\<forall>e p'. parseLoop L p rbp depth left = Inr (e, p') \<longrightarrow> tsize p' \<le> tsize p)"
  "parse_parseLoop_nud_led_parseArgs_dom (Inr (Inl (L, p, t, depth))) \<Longrightarrow>
     (\<forall>e p'. nud L p t depth = Inr (e, p') \<longrightarrow> tsize p' \<le> tsize p \<and> tok_typ t \<noteq> tEOF)"
  "parse_parseLoop_nud_led_parseArgs_dom (Inr (Inr (Inl (L, p, t, left, depth)))) \<Longrightarrow>
     (\<forall>e p'. led L p t left depth = Inr (e, p') \<longrightarrow> tsize p' \<le> tsize p)"
  "parse_parseLoop_nud_led_parseArgs_dom (Inr (Inr (Inr (L, p, depth, args)))) \<Longrightarrow>
     (\<forall>as p'. parseArgs L p depth args = Inr (as, p') \<longrightarrow> tsize p' \<le> tsize p)"
proof (induct rule: parse_parseLoop_nud_led_parseArgs.pinduct)
  case (1 L p rbp depth)
  show ?case
  proof (intro allI impI)
    fix e p'
    assume r: "parse L p rbp depth = Inr (e, p')"
    from r 1(1) have c: "\<not> MaxStackDepth < depth" "plexErr p = None" "plexErr (advance p) = None"
      by (auto simp: parse.psimps split: if_splits option.splits)
    from r 1(1) c obtain left p1 where
      n: "nud L (advance p) (pcurr p) depth = Inr (left, p1)"
      and l: "parseLoop L p1 rbp depth left = Inr (e, p')"
      by (auto simp: parse.psimps split: sum.splits)
    from 1(2) [OF c] n have a: "tsize p1 \<le> tsize (advance p)" "tok_typ (pcurr p) \<noteq> tEOF"
      by auto
    from 1(3) [OF c n refl] l have b: "tsize p' \<le> tsize p1"
      by auto
    from a b tsize_advance [of p] show "tsize p' < tsize p"
      by simp
  qed
next
  case (2 L p rbp depth left)
  show ?case
  proof (intro allI impI)
    fix e p'
    assume r: "parseLoop L p rbp depth left = Inr (e, p')"
    show "tsize p' \<le> tsize p"
    proof (cases "rbp < lbp (pcurr p)")
      case False
      with r 2(1) show ?thesis by (simp add: parseLoop.psimps)
    next
      case True
      from r 2(1) True have c: "plexErr (advance p) = None"
        by (auto simp: parseLoop.psimps split: option.splits)
      from r 2(1) True c obtain left' p1 where
        n: "led L (advance p) (pcurr p) left depth = Inr (left', p1)"
        and l: "parseLoop L p1 rbp depth left' = Inr (e, p')"
        by (auto simp: parseLoop.psimps split: sum.splits)
      from 2(2) [OF True c] n have a: "tsize p1 \<le> tsize (advance p)"
        by auto
      from 2(3) [OF True c n refl] l have b: "tsize p' \<le> tsize p1"
        by auto
      from a b tsize_advance_le [of p] show ?thesis
        by simp
    qed
  qed
next
  case (3 L p t depth)
  show ?case
  proof (intro allI impI)
    fix e p'
    assume r: "nud L p t depth = Inr (e, p')"
    from r 3(1) have ne: "tok_typ t \<noteq> tEOF"
      by (auto simp: nud.psimps split: if_splits)
    have "tsize p' \<le> tsize p"
    proof (cases "tok_typ t")
      case tIdent
      show ?thesis
      proof (cases "tok_val t \<noteq> ''true'' \<and> tok_val t \<noteq> ''false'' \<and> tok_typ (pcurr p) = tLParen")
        case True
        with r 3(1) tIdent obtain args where
          "parseArgs L (advance p) depth [] = Inr (args, p')"
          by (auto simp: nud.psimps split: sum.splits)
        with 3(2) True tIdent have "tsize p' \<le> tsize (advance p)"
          by auto
        with tsize_advance_le [of p] show ?thesis by simp
      next
        case False
        with r 3(1) tIdent show ?thesis
          by (auto simp: nud.psimps split: if_splits)
      qed
    next
      case tLParen
      with r 3(1) obtain p1 where
        a: "parse L p 0 (depth + 1) = Inr (e, p1)" and b: "p' = advance p1"
        by (auto simp: nud.psimps split: sum.splits if_splits)
      from 3(3) tLParen a have "tsize p1 < tsize p" by auto
      with b tsize_advance_le [of p1] show ?thesis by simp
    next
      case tOp
      with r 3(1) obtain right where
        a: "parse L p 60 (depth + 1) = Inr (right, p')" and "tok_val t \<in> {''!'', ''-'', ''~''}"
        by (auto simp: nud.psimps split: sum.splits if_splits)
      with 3(4) tOp show ?thesis by auto
    qed (use r 3(1) in \<open>auto simp: nud.psimps split: if_splits\<close>)
    with ne show "tsize p' \<le> tsize p \<and> tok_typ t \<noteq> tEOF" by simp
  qed
next
  case (4 L p t left depth)
  show ?case
  proof (intro allI impI)
    fix e p'
    assume r: "led L p t left depth = Inr (e, p')"
    show "tsize p' \<le> tsize p"
    proof (cases "tok_val t = ''?''")
      case True
      with r 4(1) obtain th p1 el where
        a: "parse L p 0 (depth + 1) = Inr (th, p1)"
        and c: "\<not> (tok_typ (pcurr p1) \<noteq> tOp \<or> tok_val (pcurr p1) \<noteq> '':'')"
        and b: "parse L (advance p1) (lbp t - 1) (depth + 1) = Inr (el, p')"
        by (auto simp: led.psimps split: sum.splits if_splits)
      from 4(2) [OF True] a have "tsize p1 < tsize p" by auto
      moreover from 4(3) [OF True a refl c] b have "tsize p' < tsize (advance p1)" by auto
      ultimately show ?thesis using tsize_advance_le [of p1] by simp
    next
      case nq: False
      show ?thesis
      proof (cases "tok_val t = ''[''")
        case True
        with nq r 4(1) obtain p1 where
          a: "parse L p 0 (depth + 1) = Inr (p1)" "p' = advance (snd p1)"
          by (auto simp: led.psimps split: sum.splits if_splits)
        from 4(4) [OF nq True] a have "tsize (snd p1) < tsize p" by (cases p1) auto
        with a tsize_advance_le [of "snd p1"] show ?thesis by simp
      next
        case nb: False
        show ?thesis
        proof (cases "tok_val t = ''.''")
          case False
          with nq nb r 4(1) obtain right where
            "parse L p (lbp t) (depth + 1) = Inr (right, p')"
            by (auto simp: led.psimps split: sum.splits)
          with 4(7) [OF nq nb False] show ?thesis by auto
        next
          case True
          show ?thesis
          proof (cases "tok_typ (pcurr p) = tOp \<and> tok_val (pcurr p) = ''[''")
            case br: True
            with nq nb True r 4(1) obtain p1 where
              a: "parse L (advance p) 0 (depth + 1) = Inr p1" "p' = advance (snd p1)"
              by (auto simp: led.psimps split: sum.splits if_splits)
            from 4(5) [OF nq nb True br] a have "tsize (snd p1) < tsize (advance p)"
              by (cases p1) auto
            with a tsize_advance_le [of "snd p1"] tsize_advance_le [of p] show ?thesis by simp
          next
            case nbr: False
            show ?thesis
            proof (cases "tok_typ (pcurr (advance p)) = tLParen")
              case lp: True
              with nq nb True nbr r 4(1) obtain args where
                "parseArgs L (advance (advance p)) depth [] = Inr (args, p')"
                by (auto simp: led.psimps split: sum.splits)
              with 4(6) [OF nq nb True nbr lp] have "tsize p' \<le> tsize (advance (advance p))"
                by auto
              with tsize_advance_le [of "advance p"] tsize_advance_le [of p] show ?thesis
                by simp
            next
              case False
              with nq nb True nbr r 4(1) have "p' = advance p"
                by (auto simp: led.psimps)
              with tsize_advance_le [of p] show ?thesis by simp
            qed
          qed
        qed
      qed
    qed
  qed
next
  case (5 L p depth args)
  show ?case
  proof (intro allI impI)
    fix as p'
    assume r: "parseArgs L p depth args = Inr (as, p')"
    show "tsize p' \<le> tsize p"
    proof (cases "tok_typ (pcurr p) \<noteq> tRParen \<and> tok_typ (pcurr p) \<noteq> tEOF")
      case True
      with r 5(1) obtain a p1 where
        a: "parse L p 0 (depth + 1) = Inr (a, p1)"
        and b: "parseArgs L (if tok_typ (pcurr p1) = tComma then advance p1 else p1) depth
                  (args @ [a]) = Inr (as, p')"
        by (auto simp: parseArgs.psimps split: sum.splits)
      from 5(2) [OF True] a have "tsize p1 < tsize p" by auto
      moreover from 5(3) [OF True a refl] b
      have "tsize p' \<le> tsize (if tok_typ (pcurr p1) = tComma then advance p1 else p1)"
        by auto
      ultimately show ?thesis using tsize_advance_le [of p1]
        by (auto split: if_splits)
    next
      case False
      with r 5(1) have "p' = advance p"
        by (auto simp: parseArgs.psimps split: if_splits)
      with tsize_advance_le [of p] show ?thesis by simp
    qed
  qed
qed

termination parse
  apply (relation "measure (\<lambda>x. case x of
      Inl (Inl (L, p, rbp, depth)) \<Rightarrow> 3 * tsize p + 1
    | Inl (Inr (L, p, rbp, depth, left)) \<Rightarrow> 3 * tsize p + 1
    | Inr (Inl (L, p, t, depth)) \<Rightarrow> 3 * (tsize p + (if tok_typ t = tEOF then 0 else 1))
    | Inr (Inr (Inl (L, p, t, left, depth))) \<Rightarrow> 3 * (tsize p + 1)
    | Inr (Inr (Inr (L, p, depth, args))) \<Rightarrow> 3 * tsize p + 2)")
  apply simp_all
  subgoal for p depth
    using tsize_advance [of p] by auto
  subgoal for L p depth b x y
    using parse_size(3) [of L "advance p" "pcurr p" depth] tsize_advance [of p] by auto
  subgoal for p rbp
    using tsize_advance [of p] lbp_pos_not_EOF [of rbp "pcurr p"] by auto
  subgoal for L p rbp depth left b x y
    using parse_size(4) [of L "advance p" "pcurr p" left depth] tsize_advance [of p]
      lbp_pos_not_EOF [of rbp "pcurr p"] by auto
  subgoal for p t
    using tsize_advance_le [of p] by auto
  subgoal for L p t depth b x y
    using parse_size(1) [of L p 0 "Suc depth"] tsize_advance_le [of y] by auto
  subgoal for p t
    using tsize_advance_le [of p] by auto
  subgoal for p t
    using tsize_advance_le [of p] tsize_advance_le [of "advance p"] by auto
  subgoal for L p depth b x y
    using parse_size(1) [of L p 0 "Suc depth"] tsize_advance_le [of y] by auto
  done

declare parse.simps [simp del] parseLoop.simps [simp del] nud.simps [simp del]
  led.simps [simp del] parseArgs.simps [simp del]



section \<open>The canonical string form\<close>

text \<open>
  \<open>exprString\<close> is the \<open>String\<close> method of the nodes. \<open>Quote\<close> is \<open>strconv.Quote\<close>: on
  ASCII text it is spelled out (the two characters that are escaped with a backslash, the
  printable ones, the named control characters and \<open>\\x\<close> with two hex digits for the
  rest); text with other bytes is quoted by the runtime (\<open>QuoteHigh\<close>).
\<close>

definition hexDigit :: "nat \<Rightarrow> char" where
  "hexDigit n = ''0123456789abcdef'' ! (n mod 16)"

definition quoteAscii :: "char \<Rightarrow> string" where
  "quoteAscii c =
     (let n = (of_char c :: nat)
      in if c = dquote \<or> c = bslash then [bslash, c]
         else if 32 \<le> n \<and> n < 127 then [c]
         else if n = 7 then [bslash, CHR ''a'']
         else if n = 8 then [bslash, CHR ''b'']
         else if n = 12 then [bslash, CHR ''f'']
         else if n = 10 then [bslash, CHR ''n'']
         else if n = 13 then [bslash, CHR ''r'']
         else if n = 9 then [bslash, CHR ''t'']
         else if n = 11 then [bslash, CHR ''v'']
         else [bslash, CHR ''x'', hexDigit (n div 16), hexDigit n])"

definition Quote :: "'f golib \<Rightarrow> string \<Rightarrow> string" where
  "Quote L s =
     dquote # (if \<forall>c \<in> set s. (of_char c :: nat) < 128 then concat (map quoteAscii s)
               else QuoteHigh L s) @ [dquote]"

fun joinArgs :: "string list \<Rightarrow> string" where
  "joinArgs [] = []"
| "joinArgs [a] = a"
| "joinArgs (a # as) = a @ '', '' @ joinArgs as"

fun exprString :: "'f golib \<Rightarrow> 'f expr \<Rightarrow> string" where
  "exprString L (LiteralExpr v) = (case v of DStr s \<Rightarrow> Quote L s | _ \<Rightarrow> Sprint L v)"
| "exprString L (VariableExpr name) = name"
| "exprString L (MemberAccessExpr left key isIndex) =
     (if isIndex then exprString L left @ ''['' @ key @ '']''
      else exprString L left @ ''.'' @ key)"
| "exprString L (IndexExpr left index) =
     exprString L left @ ''['' @ exprString L index @ '']''"
| "exprString L (MethodCallExpr left m args) =
     exprString L left @ ''.'' @ m @ ''('' @ joinArgs (map (exprString L) args) @ '')''"
| "exprString L (CallExpr name args) =
     name @ ''('' @ joinArgs (map (exprString L) args) @ '')''"
| "exprString L (UnaryExpr op right) = ''('' @ op @ exprString L right @ '')''"
| "exprString L (InfixExpr left op right) =
     ''('' @ exprString L left @ '' '' @ op @ '' '' @ exprString L right @ '')''"
| "exprString L (TernaryExpr c t e) =
     ''('' @ exprString L c @ '' ? '' @ exprString L t @ '' : '' @ exprString L e @ '')''"

section \<open>A reference runtime\<close>

text \<open>
  The theorems below hold for every \<open>golib\<close> and every host. To run the model on
  concrete inputs, \<open>reflib\<close> fixes one runtime: floats are exact rationals (no rounding,
  no infinities), \<open>ParseFloat\<close> reads plain decimal notation (an optional sign, digits,
  an optional point and digits) and returns 0 with an error on anything else,
  a float prints as its decimal expansion, \<open>DeepEqual\<close> is equality of values, and
  composite values print as a placeholder. On the inputs used below (small integers and
  halves) Go's \<open>float64\<close> computes the same values. \<open>noHost\<close> is a host without methods.
\<close>

definition trunc_rat :: "rat \<Rightarrow> int" where
  "trunc_rat q = (if q < 0 then - \<lfloor>- q\<rfloor> else \<lfloor>q\<rfloor>)"

fun frac_digits :: "nat \<Rightarrow> rat \<Rightarrow> string" where
  "frac_digits 0 q = []"
| "frac_digits (Suc n) q =
     (if q = 0 then []
      else digit_char (nat \<lfloor>q * 10\<rfloor>) # frac_digits n (q * 10 - of_int \<lfloor>q * 10\<rfloor>))"

definition show_rat :: "rat \<Rightarrow> string" where
  "show_rat q =
     (let a = \<bar>q\<bar>; ip = \<lfloor>a\<rfloor>; fr = a - of_int ip
      in (if q < 0 then ''-'' else []) @ dec_nat (nat ip) @
         (if fr = 0 then [] else CHR ''.'' # frac_digits 17 fr))"

fun frac_val :: "string \<Rightarrow> rat \<Rightarrow> rat \<Rightarrow> rat option" where
  "frac_val [] scale acc = Some acc"
| "frac_val (c # cs) scale acc =
     (if is_digit c then frac_val cs (scale / 10) (acc + of_nat (digit_val c) * scale / 10)
      else None)"

definition parse_decimal :: "string \<Rightarrow> rat \<times> bool" where
  "parse_decimal s =
     (let neg = (s \<noteq> [] \<and> hd s = CHR ''-'');
          body = (if s \<noteq> [] \<and> (hd s = CHR ''+'' \<or> hd s = CHR ''-'') then tl s else s);
          ip = takeWhile is_digit body;
          rest = dropWhile is_digit body;
          fp = (if rest \<noteq> [] \<and> hd rest = CHR ''.'' then tl rest else [])
      in if (rest \<noteq> [] \<and> hd rest \<noteq> CHR ''.'') \<or> (ip = [] \<and> fp = []) then (0, False)
         else case (digits_val ip 0, frac_val fp 1 0) of
                (Some n, Some f) \<Rightarrow> ((if neg then - 1 else 1) * (of_nat n + f), True)
              | _ \<Rightarrow> (0, False))"

definition reflib :: "rat golib" where
  "reflib = \<lparr>
     f_of_int = (\<lambda>i. of_int (sint i)),
     f_to_int = (\<lambda>q. word_of_int (trunc_rat q)),
     f_to_uint = (\<lambda>q. word_of_int (trunc_rat q)),
     ParseFloat = parse_decimal,
     f_add = (+), f_sub = (-), f_mul = (*), f_div = (/),
     f_neg = uminus, f_eq = (=), f_lt = (<), f_le = (\<le>),
     SprintOther = (\<lambda>v. case v of DFloat q \<Rightarrow> show_rat q | _ \<Rightarrow> ''?''),
     DeepEqual = (=),
     QuoteHigh = (\<lambda>s. s) \<rparr>"

definition noHost :: "rat host" where
  "noHost = (\<lambda>T name. None)"

definition noData :: "rat Context" where
  "noData = \<lparr> Data = DNil, Fns = Map.empty \<rparr>"

text \<open>
  The host of the repository's tests: the type \<open>TestUser\<close> of \<open>core/dsl_test.go\<close> with
  its methods \<open>GetName\<close>, \<open>SayHi\<close> and \<open>ErrorMethod\<close>, a pointer to a \<open>TestUser\<close> as
  root data, and the function \<open>add\<close> that the tests register.
\<close>

definition stringParam :: "rat param" where
  "stringParam = \<lparr> p_zero = DStr [],
     p_convert = (\<lambda>v. case v of DStr s \<Rightarrow> Some v
                        | DInt i \<Rightarrow> Some (DStr (RuneString i True))
                        | DUint u \<Rightarrow> Some (DStr (RuneString u False))
                        | _ \<Rightarrow> None) \<rparr>"

definition userName :: "rat val \<Rightarrow> string" where
  "userName recv =
     (case recv of
        DStruct T ((n, okra, json, DStr s) # fs) \<Rightarrow> s
      | _ \<Rightarrow> [])"

definition testHost :: "rat host" where
  "testHost T name =
     (if T \<noteq> ''TestUser'' then None
      else if name = ''GetName'' then
        Some \<lparr> m_ptr_recv = False, m_in = [], m_variadic = False, m_num_out = 1,
               m_call = (\<lambda>recv args. MOut [OVal (DStr (userName recv))]) \<rparr>
      else if name = ''SayHi'' then
        Some \<lparr> m_ptr_recv = False, m_in = [stringParam], m_variadic = False, m_num_out = 1,
               m_call = (\<lambda>recv args.
                 MOut [OVal (DStr (Sprint reflib (hd args) @ '' '' @ userName recv))]) \<rparr>
      else if name = ''ErrorMethod'' then
        Some \<lparr> m_ptr_recv = False, m_in = [], m_variadic = False, m_num_out = 2,
               m_call = (\<lambda>recv args. MOut [OVal (DStr []), OErr (Some ''expected error'')]) \<rparr>
      else None)"

definition testUser :: "rat val" where
  "testUser = DPtr (DStruct ''TestUser''
     [(''Name'', [], ''name_tag'', DStr ''Alice''), (''Age'', [], [], DInt 25)])"

definition testCtx :: "rat Context" where
  "testCtx = \<lparr> Data = testUser, Fns = defaultFuncs 0 \<rparr>"

definition addFunc :: "rat CustomFunc" where
  "addFunc args =
     (case args of
        [a, b] \<Rightarrow>
          (case (toInt64 a, toInt64 b) of
             ((x, True), (y, True)) \<Rightarrow> Inr (DInt (x + y))
           | _ \<Rightarrow> Inl (HostError ''bad arg''))
      | _ \<Rightarrow> Inl (HostError ''expected 2 args''))"

text \<open>\<open>ptrTo k v\<close> is \<open>v\<close> behind \<open>k\<close> pointers.\<close>

fun ptrTo :: "nat \<Rightarrow> 'f val \<Rightarrow> 'f val" where
  "ptrTo 0 v = v"
| "ptrTo (Suc k) v = DPtr (ptrTo k v)"

text \<open>
  Root data for the examples on nil, pointers, sequences and maps: a \<open>map[string]any\<close> with
  a nil entry, a nil pointer, a string, a pointer to a slice, a slice and three maps.
\<close>

definition nilData :: "rat Context" where
  "nilData = \<lparr> Data = DMap KString
       [(DStr ''x'', DNil),
        (DStr ''p'', DNilPtr ''TestUser''),
        (DStr ''s'', DStr ''abc''),
        (DStr ''ps'', DPtr (DSeq Slice [DInt 1, DInt 2, DInt 3])),
        (DStr ''arr'', DSeq Slice [DInt 1]),
        (DStr ''m'', DMap KInt [(DInt 1, DStr ''one'')]),
        (DStr ''b'', DMap KBool [(DBool True, DStr ''t'')]),
        (DStr ''nested'', DMap KString [(DStr ''key'', DStr ''val'')])],
     Fns = defaultFuncs 0 \<rparr>"



section \<open>The operators\<close>

text \<open>
  C1 (as amended). The infix \<open>+\<close> with a left operand that is not a string takes the
  numeric path, and that path does not fail: when the right operand is a string that does
  not parse as a float, the result is the float sum of the left operand's float coercion
  and the value that \<open>ParseFloat\<close> returned with its error (0 for a syntax error), with no
  error.
\<close>

theorem C1_plus_uncoercible_string_is_float_sum:
  assumes "Eval L H ctx l = Inr lv" and "\<forall>ls. lv \<noteq> DStr ls"
    and "Eval L H ctx r = Inr (DStr s)" and "\<not> snd (ParseFloat L s)"
  shows "Eval L H ctx (InfixExpr l ''+'' r) =
           Inr (DFloat (f_add L (fst (toFloat L lv)) (fst (ParseFloat L s))))"
  using assms by (cases lv) (simp_all add: evalInfix_def evalMath_def toFloat_def)

text \<open>
  C1, the claim as stated fails: \<open>10 + 'res'\<close> evaluates to the float 10 and returns no
  error, although \<open>'res'\<close> does not parse as a float.
\<close>

theorem C1_ten_plus_res_is_no_error:
  "Eval reflib noHost noData
     (InfixExpr (LiteralExpr (DInt 10)) ''+'' (LiteralExpr (DStr ''res''))) = Inr (DFloat 10)
   \<and> \<not> snd (ParseFloat reflib ''res'')"
  by (simp add: evalInfix_def evalMath_def toFloat_def reflib_def parse_decimal_def is_digit_def)

theorem C1_plus_uncoercible_string_witness:
  "Eval reflib noHost noData (LiteralExpr (DInt 10)) = Inr (DInt 10)
   \<and> (\<forall>ls. DInt 10 \<noteq> (DStr ls :: rat val))
   \<and> Eval reflib noHost noData (LiteralExpr (DStr ''res'')) = Inr (DStr ''res'')
   \<and> \<not> snd (ParseFloat reflib ''res'')
   \<and> Eval reflib noHost noData
        (InfixExpr (LiteralExpr (DInt 10)) ''+'' (LiteralExpr (DStr ''res'')))
      = Inr (DFloat (f_add reflib (fst (toFloat reflib (DInt 10)))
                                  (fst (ParseFloat reflib ''res''))))"
proof -
  have nofloat: "\<not> snd (ParseFloat reflib ''res'')"
    by (simp add: reflib_def parse_decimal_def is_digit_def)
  have nostr: "\<forall>ls. DInt 10 \<noteq> (DStr ls :: rat val)"
    by simp
  have l: "Eval reflib noHost noData (LiteralExpr (DInt 10)) = Inr (DInt 10)"
    by simp
  have r: "Eval reflib noHost noData (LiteralExpr (DStr ''res'')) = Inr (DStr ''res'')"
    by simp
  from C1_plus_uncoercible_string_is_float_sum [OF l nostr r nofloat] nofloat
  show ?thesis by simp
qed

text \<open>
  C5. \<open>&&\<close> and \<open>||\<close> short-circuit: when the left operand evaluates to a value that is
  falsy (for \<open>&&\<close>) or truthy (for \<open>||\<close>), the result is false (true) whatever the right
  operand is, so the right operand is not evaluated and an error it would produce does not
  surface. In particular \<open>1/0\<close> alone fails with the division error, while
  \<open>false && (1/0)\<close> is false and \<open>true || (1/0)\<close> is true, without error, in every
  context and runtime.
\<close>

theorem C5_logical_operators_short_circuit:
  "(Eval L H ctx l = Inr lv \<and> \<not> toBool L lv \<longrightarrow>
      Eval L H ctx (InfixExpr l ''&&'' r) = Inr (DBool False))
   \<and> (Eval L H ctx l' = Inr lv' \<and> toBool L lv' \<longrightarrow>
      Eval L H ctx (InfixExpr l' ''||'' r') = Inr (DBool True))
   \<and> Eval L H ctx (InfixExpr (LiteralExpr (DInt 1)) ''/'' (LiteralExpr (DInt 0))) = Inl DivByZero
   \<and> Eval L H ctx (InfixExpr (LiteralExpr (DBool False)) ''&&''
        (InfixExpr (LiteralExpr (DInt 1)) ''/'' (LiteralExpr (DInt 0)))) = Inr (DBool False)
   \<and> Eval L H ctx (InfixExpr (LiteralExpr (DBool True)) ''||''
        (InfixExpr (LiteralExpr (DInt 1)) ''/'' (LiteralExpr (DInt 0)))) = Inr (DBool True)"
  by (simp add: toBool_def evalInfix_def evalMath_def)

theorem C5_logical_operators_witness:
  "Eval reflib noHost noData (LiteralExpr (DStr ''false'')) = Inr (DStr ''false'')
   \<and> \<not> toBool reflib (DStr ''false'')
   \<and> Eval reflib noHost noData
        (InfixExpr (LiteralExpr (DStr ''false'')) ''&&'' (CallExpr ''missing'' []))
      = Inr (DBool False)
   \<and> Eval reflib noHost noData (LiteralExpr (DInt 7)) = Inr (DInt 7)
   \<and> toBool reflib (DInt 7)
   \<and> Eval reflib noHost noData
        (InfixExpr (LiteralExpr (DInt 7)) ''||'' (CallExpr ''missing'' []))
      = Inr (DBool True)
   \<and> Eval reflib noHost noData (CallExpr ''missing'' []) = Inl (FuncNotFound ''missing'')"
proof -
  have f: "\<not> toBool reflib (DStr ''false'')"
    by (simp add: toBool_def)
  have t: "toBool reflib (DInt 7)"
    by (simp add: toBool_def toFloat_def reflib_def)
  have e: "Eval reflib noHost noData (CallExpr ''missing'' []) = Inl (FuncNotFound ''missing'')"
    by (simp add: noData_def)
  from C5_logical_operators_short_circuit
         [of reflib noHost noData "LiteralExpr (DStr ''false'')" "DStr ''false''"
             "CallExpr ''missing'' []" "LiteralExpr (DInt 7)" "DInt 7" "CallExpr ''missing'' []"]
       f t e
  show ?thesis by simp
qed

text \<open>
  C6 (as amended). When both operands are integer-coercible, \<open>/\<close> and \<open>%\<close> by zero fail
  with the division error. When the operands are not both integer-coercible (the float
  path), \<open>/\<close> by a right operand whose float coercion equals zero fails with the same
  error, and \<open>%\<close> yields nil with no error, whatever the operands are, a zero right
  operand included.
\<close>

theorem C6_division_by_zero_and_float_modulo:
  "(snd (toInt64 lv) \<and> toInt64 rv = (0, True) \<longrightarrow>
      evalInfix L lv ''/'' rv = Inl DivByZero \<and> evalInfix L lv ''%'' rv = Inl DivByZero)
   \<and> (\<not> (snd (toInt64 lv') \<and> snd (toInt64 rv'))
       \<and> f_eq L (fst (toFloat L rv')) (f_of_int L 0) \<longrightarrow>
      evalInfix L lv' ''/'' rv' = Inl DivByZero)
   \<and> (\<not> (snd (toInt64 lv'') \<and> snd (toInt64 rv'')) \<longrightarrow>
      evalInfix L lv'' ''%'' rv'' = Inr DNil)"
  by (auto simp: evalInfix_def evalMath_def split: prod.splits)

theorem C6_division_by_zero_witness:
  "snd (toInt64 (DInt 10 :: rat val)) \<and> toInt64 (DInt 0 :: rat val) = (0, True)
   \<and> evalInfix reflib (DInt 10) ''/'' (DInt 0) = Inl DivByZero
   \<and> evalInfix reflib (DInt 10) ''%'' (DInt 0) = Inl DivByZero
   \<and> \<not> (snd (toInt64 (DFloat (21 / 2) :: rat val)) \<and> snd (toInt64 (DInt 0 :: rat val)))
   \<and> f_eq reflib (fst (toFloat reflib (DInt 0))) (f_of_int reflib 0)
   \<and> evalInfix reflib (DFloat (21 / 2)) ''/'' (DInt 0) = Inl DivByZero
   \<and> \<not> (snd (toInt64 (DFloat (6 / 5) :: rat val)) \<and> snd (toInt64 (DFloat 2 :: rat val)))
   \<and> evalInfix reflib (DFloat (6 / 5)) ''%'' (DFloat 2) = Inr DNil"
proof -
  have z: "f_eq reflib (fst (toFloat reflib (DInt 0))) (f_of_int reflib 0)"
    by (simp add: toFloat_def reflib_def)
  from C6_division_by_zero_and_float_modulo
         [of "DInt 10" "DInt 0" reflib "DFloat (21 / 2)" "DInt 0" "DFloat (6 / 5)" "DFloat 2"] z
  show ?thesis by simp
qed

text \<open>
  C6, the claim as stated fails: modulo by a float zero does not fail. \<open>10 % 0.0\<close>
  evaluates to nil with no error, and so does the modulo of a float by the integer zero,
  \<open>10.5 % 0\<close>, while \<open>10 % 0\<close> fails.
\<close>

theorem C6_modulo_by_float_zero_is_nil:
  "Eval reflib noHost noData
     (InfixExpr (LiteralExpr (DInt 10)) ''%'' (LiteralExpr (DFloat 0))) = Inr DNil
   \<and> f_eq reflib 0 (f_of_int reflib 0)
   \<and> Eval reflib noHost noData
     (InfixExpr (LiteralExpr (DFloat (21 / 2))) ''%'' (LiteralExpr (DInt 0))) = Inr DNil
   \<and> Eval reflib noHost noData
     (InfixExpr (LiteralExpr (DInt 10)) ''%'' (LiteralExpr (DInt 0))) = Inl DivByZero"
  by (simp add: evalInfix_def evalMath_def reflib_def)

text \<open>
  C8. When the left operand of \<open>+\<close> evaluates to a string and the right operand to any
  value, the result is the string followed by \<open>fmt.Sprint\<close> of the right value, with no
  error.
\<close>

theorem C8_plus_string_left_concatenates:
  "Eval L H ctx l = Inr (DStr ls) \<Longrightarrow> Eval L H ctx r = Inr rv \<Longrightarrow>
   Eval L H ctx (InfixExpr l ''+'' r) = Inr (DStr (ls @ Sprint L rv))"
  by (simp add: evalInfix_def)

theorem C8_plus_string_left_witness:
  "Eval reflib noHost noData (LiteralExpr (DStr ''res: '')) = Inr (DStr ''res: '')
   \<and> Eval reflib noHost noData (LiteralExpr (DInt 10)) = Inr (DInt 10)
   \<and> Sprint reflib (DInt 10) = ''10''
   \<and> Eval reflib noHost noData
        (InfixExpr (LiteralExpr (DStr ''res: '')) ''+'' (LiteralExpr (DInt 10)))
      = Inr (DStr ''res: 10'')"
proof -
  have l: "Eval reflib noHost noData (LiteralExpr (DStr ''res: '')) = Inr (DStr ''res: '')"
    by simp
  have r: "Eval reflib noHost noData (LiteralExpr (DInt 10)) = Inr (DInt 10)"
    by simp
  have p: "Sprint reflib (DInt 10) = ''10''"
    by (simp add: Sprint_def FormatInt_def dec_nat.simps digit_char_def)
  from C8_plus_string_left_concatenates [OF l r] p
  show ?thesis by simp
qed

section \<open>Calls\<close>

text \<open>
  C10. When the name of a call is not in the registry, the root data is not nil, the
  arguments evaluate, and the method invocation on the root data returns an error, whatever
  the error is (the method's own error, a wrong number of arguments, an argument that does
  not convert, a method that does not exist, a panic inside the method), the call fails
  with the error "function or method not found" for that name.
\<close>

theorem C10_fallback_failure_is_not_found:
  "Fns ctx (ToLower name) = None \<Longrightarrow> Data ctx \<noteq> DNil \<Longrightarrow> EvalArgs L H ctx args = Inr vs \<Longrightarrow>
   callReflectMethod H (Data ctx) name vs = Inl e \<Longrightarrow>
   Eval L H ctx (CallExpr name args) = Inl (FuncNotFound name)"
  by simp

theorem C10_fallback_failure_witness:
  "Fns testCtx (ToLower ''ErrorMethod'') = None \<and> Data testCtx \<noteq> DNil
   \<and> EvalArgs reflib testHost testCtx [] = Inr []
   \<and> callReflectMethod testHost (Data testCtx) ''ErrorMethod'' []
        = Inl (HostError ''expected error'')
   \<and> Eval reflib testHost testCtx (CallExpr ''ErrorMethod'' [])
        = Inl (FuncNotFound ''ErrorMethod'')"
proof -
  have a: "Fns testCtx (ToLower ''ErrorMethod'') = None"
    by (simp add: testCtx_def defaultFuncs_def ToLower_def lowerChar_def)
  have b: "Data testCtx \<noteq> DNil"
    by (simp add: testCtx_def testUser_def)
  have c: "EvalArgs reflib testHost testCtx [] = Inr []"
    by simp
  have d: "callReflectMethod testHost (Data testCtx) ''ErrorMethod'' []
             = Inl (HostError ''expected error'')"
    by (simp add: callReflectMethod_def findMethod_def testHost_def testCtx_def testUser_def
          callResult_def invoke_def)
  from C10_fallback_failure_is_not_found [OF a b c d] a b c d
  show ?thesis by simp
qed

text \<open>
  C2, the code at the failing input: a function registered under the name \<open>Add\<close> is
  found neither by the call \<open>Add(1, 2)\<close> nor by the call \<open>add(1, 2)\<close>, because
  \<open>RegisterFunc\<close> stores the name as given while \<open>CallExpr.Eval\<close> looks up the
  lower-cased name. The same function registered as \<open>add\<close> is found by \<open>Add(1, 2)\<close>.
\<close>

theorem C2_mixed_case_registration_is_unreachable:
  "(case RegisterFunc 0 (NewEngine 0) ''Add'' (Some addFunc) of
      Inl e \<Rightarrow> False
    | Inr eng \<Rightarrow>
        Eval reflib noHost \<lparr> Data = DNil, Fns = loadFuncs 0 eng \<rparr>
          (CallExpr ''Add'' [LiteralExpr (DInt 1), LiteralExpr (DInt 2)])
          = Inl (FuncNotFound ''Add'')
      \<and> Eval reflib noHost \<lparr> Data = DNil, Fns = loadFuncs 0 eng \<rparr>
          (CallExpr ''add'' [LiteralExpr (DInt 1), LiteralExpr (DInt 2)])
          = Inl (FuncNotFound ''add''))
   \<and> (case RegisterFunc 0 (NewEngine 0) ''add'' (Some addFunc) of
      Inl e \<Rightarrow> False
    | Inr eng \<Rightarrow>
        Eval reflib noHost \<lparr> Data = DNil, Fns = loadFuncs 0 eng \<rparr>
          (CallExpr ''Add'' [LiteralExpr (DInt 1), LiteralExpr (DInt 2)])
          = Inr (DInt 3))"
  by (simp add: RegisterFunc_def NewEngine_def loadFuncs_def defaultFuncs_def ToLower_def
        lowerChar_def addFunc_def)

lemma registered_lower_case_name_resolves:
  assumes "RegisterFunc clock eng N (Some fn) = Inr eng'" and "ToLower name = N"
  shows "Eval L H \<lparr> Data = d, Fns = loadFuncs clock eng' \<rparr> (CallExpr name args) =
           (case EvalArgs L H \<lparr> Data = d, Fns = loadFuncs clock eng' \<rparr> args of
              Inl e \<Rightarrow> Inl e | Inr vs \<Rightarrow> fn vs)"
  using assms by (auto simp: RegisterFunc_def loadFuncs_def split: if_splits)

section \<open>Nil safety and the \<open>len\<close> pseudo-method\<close>

lemma ptrTo_eq_DNil: "ptrTo k v = DNil \<longleftrightarrow> v = DNil \<and> k = 0"
  by (cases k) auto

lemma lenPseudo_ptrTo: "lenPseudo (ptrTo k v) = lenPseudo v"
  by (induction k) auto

lemma getMemberAt_ptrTo_Suc:
  "getMemberAt H a (ptrTo (Suc k) v) key = getMemberAt H True v key"
  by (induction k arbitrary: a) auto

lemma indexAt_ptrTo: "indexAt L (ptrTo k v) idx = indexAt L v idx"
  by (induction k) auto

lemma getMember_ptrTo_nilptr: "getMember H (ptrTo k (DNilPtr T)) key = Inr DNil"
proof (cases k)
  case 0
  then show ?thesis by (simp add: getMember_def)
next
  case (Suc n)
  then show ?thesis by (simp only: getMember_def getMemberAt_ptrTo_Suc) simp
qed

lemma getMember_ptrTo_seq:
  "getMember H (ptrTo k (DSeq sk xs)) key =
     (case Atoi key of
        (idx, ok) \<Rightarrow>
          if \<not> ok \<or> sint idx < 0 \<or> sint idx \<ge> int (length xs) then Inr DNil
          else Inr (xs ! nat (sint idx)))"
proof (cases k)
  case 0
  then show ?thesis by (simp add: getMember_def)
next
  case (Suc n)
  then show ?thesis by (simp only: getMember_def getMemberAt_ptrTo_Suc) simp
qed

lemma getMember_ptrTo_map:
  "getMember H (ptrTo k (DMap kt kvs)) key = getMemberAt H True (DMap kt kvs) key"
proof (cases k)
  case 0
  then show ?thesis by (simp add: getMember_def)
next
  case (Suc n)
  then show ?thesis by (simp only: getMember_def getMemberAt_ptrTo_Suc) simp
qed

text \<open>
  C3 (as amended). With no arguments, \<open>len\<close> on a receiver that is, behind any number of
  pointers, a slice or array, a string or a map returns the number of elements, of bytes
  or of entries, and on a receiver that is, behind any number of pointers, a nil pointer it
  returns 0; the registry and the host's methods play no part (the result is the same for
  every registry and host). A receiver that is nil itself gives nil.
\<close>

theorem C3_len_pseudo_method:
  "(Eval L H ctx left = Inr (ptrTo k (DSeq sk xs)) \<longrightarrow>
      Eval L H ctx (MethodCallExpr left ''len'' []) = Inr (DInt (of_nat (length xs))))
   \<and> (Eval L H ctx left = Inr (ptrTo k (DStr s)) \<longrightarrow>
      Eval L H ctx (MethodCallExpr left ''len'' []) = Inr (DInt (of_nat (length s))))
   \<and> (Eval L H ctx left = Inr (ptrTo k (DMap kt kvs)) \<longrightarrow>
      Eval L H ctx (MethodCallExpr left ''len'' []) = Inr (DInt (of_nat (length kvs))))
   \<and> (Eval L H ctx left = Inr (ptrTo k (DNilPtr T)) \<longrightarrow>
      Eval L H ctx (MethodCallExpr left ''len'' []) = Inr (DInt 0))
   \<and> (Eval L H ctx left = Inr DNil \<longrightarrow>
      Eval L H ctx (MethodCallExpr left ''len'' []) = Inr DNil)"
  by (auto simp: lenPseudo_ptrTo ptrTo_eq_DNil)

lemma nilData_var:
  "Eval reflib noHost nilData (VariableExpr ''x'') = Inr DNil"
  "Eval reflib noHost nilData (VariableExpr ''p'') = Inr (ptrTo 0 (DNilPtr ''TestUser''))"
  "Eval reflib noHost nilData (VariableExpr ''s'') = Inr (ptrTo 0 (DStr ''abc''))"
  "Eval reflib noHost nilData (VariableExpr ''ps'')
     = Inr (ptrTo 1 (DSeq Slice [DInt 1, DInt 2, DInt 3]))"
  "Eval reflib noHost nilData (VariableExpr ''arr'') = Inr (ptrTo 0 (DSeq Slice [DInt 1]))"
  "Eval reflib noHost nilData (VariableExpr ''m'')
     = Inr (ptrTo 0 (DMap KInt [(DInt 1, DStr ''one'')]))"
  "Eval reflib noHost nilData (VariableExpr ''nested'')
     = Inr (ptrTo 0 (DMap KString [(DStr ''key'', DStr ''val'')]))"
  by (simp_all add: nilData_def getMember_def)

theorem C3_len_pseudo_method_witness:
  "Eval reflib noHost nilData (VariableExpr ''ps'')
     = Inr (ptrTo 1 (DSeq Slice [DInt 1, DInt 2, DInt 3]))
   \<and> Eval reflib noHost nilData (MethodCallExpr (VariableExpr ''ps'') ''len'' []) = Inr (DInt 3)
   \<and> Eval reflib noHost nilData (VariableExpr ''s'') = Inr (ptrTo 0 (DStr ''abc''))
   \<and> Eval reflib noHost nilData (MethodCallExpr (VariableExpr ''s'') ''len'' []) = Inr (DInt 3)
   \<and> Eval reflib noHost nilData (VariableExpr ''m'')
        = Inr (ptrTo 0 (DMap KInt [(DInt 1, DStr ''one'')]))
   \<and> Eval reflib noHost nilData (MethodCallExpr (VariableExpr ''m'') ''len'' []) = Inr (DInt 1)
   \<and> Eval reflib noHost nilData (VariableExpr ''p'') = Inr (ptrTo 0 (DNilPtr ''TestUser''))
   \<and> Eval reflib noHost nilData (MethodCallExpr (VariableExpr ''p'') ''len'' []) = Inr (DInt 0)
   \<and> Eval reflib noHost nilData (VariableExpr ''x'') = Inr DNil
   \<and> Eval reflib noHost nilData (MethodCallExpr (VariableExpr ''x'') ''len'' []) = Inr DNil"
  using C3_len_pseudo_method
          [where L = reflib and H = noHost and ctx = nilData and left = "VariableExpr ''ps''"
             and k = 1 and sk = Slice and xs = "[DInt 1, DInt 2, DInt 3]"]
        C3_len_pseudo_method
          [where L = reflib and H = noHost and ctx = nilData and left = "VariableExpr ''s''"
             and k = 0 and s = "''abc''"]
        C3_len_pseudo_method
          [where L = reflib and H = noHost and ctx = nilData and left = "VariableExpr ''m''"
             and k = 0 and kt = KInt and kvs = "[(DInt 1, DStr ''one'')]"]
        C3_len_pseudo_method
          [where L = reflib and H = noHost and ctx = nilData and left = "VariableExpr ''p''"
             and k = 0 and T = "''TestUser''"]
        C3_len_pseudo_method
          [where L = reflib and H = noHost and ctx = nilData and left = "VariableExpr ''x''"]
        nilData_var
  by simp

text \<open>
  C3, the claim as stated fails: with the data \<open>{"x": nil}\<close> the receiver of \<open>x.len()\<close>
  is nil and the result is nil, not 0.
\<close>

theorem C3_len_of_nil_is_nil:
  "Eval reflib noHost nilData (VariableExpr ''x'') = Inr DNil
   \<and> Eval reflib noHost nilData (MethodCallExpr (VariableExpr ''x'') ''len'' []) = Inr DNil
   \<and> Eval reflib noHost nilData (MethodCallExpr (VariableExpr ''x'') ''len'' [])
        \<noteq> Inr (DInt 0)"
  by (simp add: nilData_def getMember_def)

lemma member_of_missing_key:
  assumes "(kt = KString \<or> kt = KIface) \<and> map_of kvs (DStr key) = None
           \<or> kt = KInt \<and> (snd (ParseInt key) \<longrightarrow> map_of kvs (DInt (fst (ParseInt key))) = None)
           \<or> kt = KUint \<and> (snd (ParseInt key) \<longrightarrow> map_of kvs (DUint (fst (ParseInt key))) = None)"
  shows "getMemberAt H a (DMap kt kvs) key = Inr DNil"
  using assms by (cases "ParseInt key") (auto split: bool.splits)

lemma index_of_missing_key:
  assumes "mapKey L kt idx = None
           \<or> (\<exists>kv. mapKey L kt idx = Some kv \<and> map_of kvs kv = None
                    \<and> (kt = KIface \<longrightarrow> hashable kv))"
  shows "indexAt L (DMap kt kvs) idx = Inr DNil"
  using assms by auto

lemma index_out_of_range:
  assumes "\<not> snd (toInt64 idx) \<or> sint (fst (toInt64 idx)) < 0
           \<or> int (length xs) \<le> sint (fst (toInt64 idx))"
  shows "indexAt L (DSeq sk xs) idx = Inr DNil"
  using assms by (cases "toInt64 idx") auto

lemma member_out_of_range:
  assumes "\<not> snd (Atoi key) \<or> sint (fst (Atoi key)) < 0
           \<or> int (length xs) \<le> sint (fst (Atoi key))"
  shows "getMember H (ptrTo k (DSeq sk xs)) key = Inr DNil"
  using assms by (cases "Atoi key") (auto simp: getMember_ptrTo_seq)

text \<open>
  C7 (as amended). These evaluate to nil with no error: a member access or an index on a
  nil receiver; a member access on a receiver that is, behind any number of pointers, a nil
  pointer, and an index on such a receiver when the index expression evaluates; on a slice
  or array, an index whose value is not an integer, is negative or is out of range, and a
  member key that is not such an integer; on a map, an index that does not convert to the
  key kind or whose converted key is missing (and, on an interface-keyed map, hashable);
  and a member key that is missing from a map whose key kind is string or interface, or
  that is missing as an integer from a map whose key kind is a signed or unsigned integer.
  Nothing is said of a member key that parses as an integer on a map of another key kind.
\<close>

theorem C7_nil_safe_resolution:
  "(Eval L H ctx left = Inr DNil \<longrightarrow>
      Eval L H ctx (MemberAccessExpr left key b) = Inr DNil
      \<and> Eval L H ctx (IndexExpr left index) = Inr DNil)
   \<and> (Eval L H ctx left = Inr (ptrTo k (DNilPtr T)) \<longrightarrow>
      Eval L H ctx (MemberAccessExpr left key b) = Inr DNil)
   \<and> (Eval L H ctx left = Inr (ptrTo k (DNilPtr T)) \<and> Eval L H ctx index = Inr idx \<longrightarrow>
      Eval L H ctx (IndexExpr left index) = Inr DNil)
   \<and> (Eval L H ctx left = Inr (ptrTo k (DSeq sk xs)) \<and> Eval L H ctx index = Inr idx
      \<and> (\<not> snd (toInt64 idx) \<or> sint (fst (toInt64 idx)) < 0
           \<or> int (length xs) \<le> sint (fst (toInt64 idx))) \<longrightarrow>
      Eval L H ctx (IndexExpr left index) = Inr DNil)
   \<and> (Eval L H ctx left = Inr (ptrTo k (DSeq sk xs))
      \<and> (\<not> snd (Atoi key) \<or> sint (fst (Atoi key)) < 0
           \<or> int (length xs) \<le> sint (fst (Atoi key))) \<longrightarrow>
      Eval L H ctx (MemberAccessExpr left key b) = Inr DNil)
   \<and> (Eval L H ctx left = Inr (ptrTo k (DMap kt kvs)) \<and> Eval L H ctx index = Inr idx
      \<and> (mapKey L kt idx = None
           \<or> (\<exists>kv. mapKey L kt idx = Some kv \<and> map_of kvs kv = None
                    \<and> (kt = KIface \<longrightarrow> hashable kv))) \<longrightarrow>
      Eval L H ctx (IndexExpr left index) = Inr DNil)
   \<and> (Eval L H ctx left = Inr (ptrTo k (DMap kt kvs))
      \<and> ((kt = KString \<or> kt = KIface) \<and> map_of kvs (DStr key) = None
          \<or> kt = KInt \<and> (snd (ParseInt key) \<longrightarrow> map_of kvs (DInt (fst (ParseInt key))) = None)
          \<or> kt = KUint
             \<and> (snd (ParseInt key) \<longrightarrow> map_of kvs (DUint (fst (ParseInt key))) = None)) \<longrightarrow>
      Eval L H ctx (MemberAccessExpr left key b) = Inr DNil)"
proof (intro conjI impI)
  assume "Eval L H ctx left = Inr DNil"
  then show "Eval L H ctx (MemberAccessExpr left key b) = Inr DNil"
    and "Eval L H ctx (IndexExpr left index) = Inr DNil"
    by simp_all
next
  assume "Eval L H ctx left = Inr (ptrTo k (DNilPtr T))"
  then show "Eval L H ctx (MemberAccessExpr left key b) = Inr DNil"
    by (simp add: getMember_ptrTo_nilptr)
next
  assume "Eval L H ctx left = Inr (ptrTo k (DNilPtr T)) \<and> Eval L H ctx index = Inr idx"
  then show "Eval L H ctx (IndexExpr left index) = Inr DNil"
    by (simp add: indexAt_ptrTo ptrTo_eq_DNil)
next
  assume "Eval L H ctx left = Inr (ptrTo k (DSeq sk xs)) \<and> Eval L H ctx index = Inr idx
      \<and> (\<not> snd (toInt64 idx) \<or> sint (fst (toInt64 idx)) < 0
           \<or> int (length xs) \<le> sint (fst (toInt64 idx)))"
  then show "Eval L H ctx (IndexExpr left index) = Inr DNil"
    by (simp add: indexAt_ptrTo ptrTo_eq_DNil index_out_of_range del: indexAt.simps)
next
  assume "Eval L H ctx left = Inr (ptrTo k (DSeq sk xs))
      \<and> (\<not> snd (Atoi key) \<or> sint (fst (Atoi key)) < 0
           \<or> int (length xs) \<le> sint (fst (Atoi key)))"
  then show "Eval L H ctx (MemberAccessExpr left key b) = Inr DNil"
    by (simp add: ptrTo_eq_DNil member_out_of_range)
next
  assume "Eval L H ctx left = Inr (ptrTo k (DMap kt kvs)) \<and> Eval L H ctx index = Inr idx
      \<and> (mapKey L kt idx = None
           \<or> (\<exists>kv. mapKey L kt idx = Some kv \<and> map_of kvs kv = None
                    \<and> (kt = KIface \<longrightarrow> hashable kv)))"
  then show "Eval L H ctx (IndexExpr left index) = Inr DNil"
    by (simp add: indexAt_ptrTo ptrTo_eq_DNil index_of_missing_key del: indexAt.simps)
next
  assume "Eval L H ctx left = Inr (ptrTo k (DMap kt kvs))
      \<and> ((kt = KString \<or> kt = KIface) \<and> map_of kvs (DStr key) = None
          \<or> kt = KInt \<and> (snd (ParseInt key) \<longrightarrow> map_of kvs (DInt (fst (ParseInt key))) = None)
          \<or> kt = KUint
             \<and> (snd (ParseInt key) \<longrightarrow> map_of kvs (DUint (fst (ParseInt key))) = None))"
  then show "Eval L H ctx (MemberAccessExpr left key b) = Inr DNil"
    by (simp add: ptrTo_eq_DNil getMember_ptrTo_map member_of_missing_key
          del: getMemberAt.simps)
qed

lemma ParseInt_7: "ParseInt ''7'' = (7, True)"
  by (simp add: ParseInt_def is_digit_def digit_val_def)

lemma Atoi_5: "Atoi ''5'' = (5, True)"
  by (simp add: Atoi_def ParseInt_def is_digit_def digit_val_def)

theorem C7_nil_safe_resolution_witness:
  "Eval reflib noHost nilData (VariableExpr ''x'') = Inr DNil
   \<and> Eval reflib noHost nilData (MemberAccessExpr (VariableExpr ''x'') ''anything'' False)
        = Inr DNil
   \<and> Eval reflib noHost nilData (IndexExpr (VariableExpr ''x'') (LiteralExpr (DInt 0)))
        = Inr DNil
   \<and> Eval reflib noHost nilData (VariableExpr ''p'') = Inr (ptrTo 0 (DNilPtr ''TestUser''))
   \<and> Eval reflib noHost nilData (MemberAccessExpr (VariableExpr ''p'') ''Name'' False)
        = Inr DNil
   \<and> Eval reflib noHost nilData (IndexExpr (VariableExpr ''p'') (LiteralExpr (DInt 0)))
        = Inr DNil
   \<and> Eval reflib noHost nilData (VariableExpr ''arr'') = Inr (ptrTo 0 (DSeq Slice [DInt 1]))
   \<and> int (length [DInt 1 :: rat val]) \<le> sint (fst (toInt64 (DInt 99 :: rat val)))
   \<and> Eval reflib noHost nilData (IndexExpr (VariableExpr ''arr'') (LiteralExpr (DInt 99)))
        = Inr DNil
   \<and> int (length [DInt 1 :: rat val]) \<le> sint (fst (Atoi ''5''))
   \<and> Eval reflib noHost nilData (MemberAccessExpr (VariableExpr ''arr'') ''5'' False)
        = Inr DNil
   \<and> Eval reflib noHost nilData (VariableExpr ''m'')
        = Inr (ptrTo 0 (DMap KInt [(DInt 1, DStr ''one'')]))
   \<and> mapKey reflib KInt (DInt 2) = Some (DInt 2)
   \<and> map_of [(DInt 1, DStr ''one'' :: rat val)] (DInt 2) = None
   \<and> Eval reflib noHost nilData (IndexExpr (VariableExpr ''m'') (LiteralExpr (DInt 2)))
        = Inr DNil
   \<and> map_of [(DInt 1, DStr ''one'' :: rat val)] (DInt (fst (ParseInt ''7''))) = None
   \<and> Eval reflib noHost nilData (MemberAccessExpr (VariableExpr ''m'') ''7'' False)
        = Inr DNil"
proof -
  have k: "mapKey reflib KInt (DInt 2) = Some (DInt 2)"
    by (simp add: mapKey_def)
  have lit: "Eval reflib noHost nilData (LiteralExpr (DInt 0)) = Inr (DInt 0)"
    "Eval reflib noHost nilData (LiteralExpr (DInt 99)) = Inr (DInt 99)"
    "Eval reflib noHost nilData (LiteralExpr (DInt 2)) = Inr (DInt 2)"
    by simp_all
  note C7_nil_safe_resolution
         [where L = reflib and H = noHost and ctx = nilData and left = "VariableExpr ''x''"
            and key = "''anything''" and b = False and index = "LiteralExpr (DInt 0)"]
       C7_nil_safe_resolution
         [where L = reflib and H = noHost and ctx = nilData and left = "VariableExpr ''p''"
            and key = "''Name''" and b = False and index = "LiteralExpr (DInt 0)"
            and k = 0 and T = "''TestUser''" and idx = "DInt 0"]
       C7_nil_safe_resolution
         [where L = reflib and H = noHost and ctx = nilData and left = "VariableExpr ''arr''"
            and key = "''5''" and b = False and index = "LiteralExpr (DInt 99)"
            and k = 0 and sk = Slice and xs = "[DInt 1]" and idx = "DInt 99"]
       C7_nil_safe_resolution
         [where L = reflib and H = noHost and ctx = nilData and left = "VariableExpr ''m''"
            and key = "''7''" and b = False and index = "LiteralExpr (DInt 2)"
            and k = 0 and kt = KInt and kvs = "[(DInt 1, DStr ''one'')]" and idx = "DInt 2"]
  with nilData_var lit k ParseInt_7 Atoi_5 show ?thesis
    by simp
qed

text \<open>
  C7, the claim as stated fails: the key \<open>1\<close> is missing from the map
  \<open>map[bool]string{true: "t"}\<close>, and the member access \<open>b.1\<close> does not evaluate to nil:
  converting the parsed integer to the key type panics, which \<open>Engine.Eval\<close> reports as an
  error (the test "Engine Eval top-level recover" expects it).
\<close>

theorem C7_member_of_bool_keyed_map_panics:
  "Eval reflib noHost nilData (VariableExpr ''b'') = Inr (DMap KBool [(DBool True, DStr ''t'')])
   \<and> map_of [(DBool True, DStr ''t'' :: rat val)] (DStr ''1'') = None
   \<and> map_of [(DBool True, DStr ''t'' :: rat val)] (DInt 1) = None
   \<and> Eval reflib noHost nilData (MemberAccessExpr (VariableExpr ''b'') ''1'' False)
        = Inl (Panic ''reflect.Value.Convert'')"
  by (simp add: nilData_def getMember_def ParseInt_def is_digit_def digit_val_def)

section \<open>The depth of the parser\<close>







end
